theory Spec2Isabelle
  imports Complex_Main "HOL-Library.Word"
begin

section \<open>Values thrown by the JavaScript code\<close>

text \<open>
  The TypeScript sources throw and record plain \<open>Error\<close> objects, the player's own
  \<open>AudioPlayerError\<close> (AudioPlayer.ts, lines 19-27), and may receive values that are
  not instances of \<open>Error\<close> (the \<open>ErrorEvent\<close> of the recorder's error listener).
\<close>

datatype error_code = LOAD_ERROR | PLAYBACK_ERROR

datatype js_thrown =
    Error string
  | AudioPlayerError string error_code
  | NotAnError

fun instanceofError :: "js_thrown \<Rightarrow> bool" where
  "instanceofError (Error m) = True"
| "instanceofError (AudioPlayerError m c) = True"
| "instanceofError NotAnError = False"

fun message :: "js_thrown \<Rightarrow> string" where
  "message (Error m) = m"
| "message (AudioPlayerError m c) = m"
| "message NotAnError = []"

section \<open>The encoding-format table (src/src/hooks/audioConst.ts)\<close>

record audio_config =
  extension :: string
  estimatedSizeMBPerMinute :: real
  priority :: int

text \<open>\<open>AUDIO_CONFIGS\<close>, lines 14-35: an object literal, kept in insertion order.\<close>

definition AUDIO_CONFIGS :: "(string \<times> audio_config) list" where
  "AUDIO_CONFIGS =
    [(''audio/webm;codecs=opus'',
        \<lparr>extension = ''webm'', estimatedSizeMBPerMinute = 0.75, priority = 1\<rparr>),
     (''audio/webm'',
        \<lparr>extension = ''webm'', estimatedSizeMBPerMinute = 1, priority = 2\<rparr>),
     (''audio/mp4'',
        \<lparr>extension = ''mp4'', estimatedSizeMBPerMinute = 1.5, priority = 3\<rparr>),
     (''audio/mpeg'',
        \<lparr>extension = ''mp3'', estimatedSizeMBPerMinute = 1.5, priority = 4\<rparr>)]"

text \<open>\<open>Object.keys(AUDIO_CONFIGS)\<close>.\<close>

definition config_keys :: "string list" where
  "config_keys = map fst AUDIO_CONFIGS"

text \<open>\<open>AUDIO_CONFIGS[k].priority\<close>, read only at keys of the table.\<close>

definition priority_of :: "string \<Rightarrow> int" where
  "priority_of k = (case map_of AUDIO_CONFIGS k of Some c \<Rightarrow> priority c | None \<Rightarrow> 0)"

text \<open>
  \<open>getBestSupportedMimeType\<close>, lines 42-48. The platform's
  \<open>MediaRecorder.isTypeSupported\<close> is the parameter. \<open>Array.prototype.sort\<close> is stable,
  as is \<open>sort_key\<close>; \<open>find\<close> returns the first match, \<open>??\<close> supplies the default.
\<close>

definition getBestSupportedMimeType :: "(string \<Rightarrow> bool) \<Rightarrow> string" where
  "getBestSupportedMimeType isTypeSupported =
     (case find isTypeSupported (sort_key priority_of config_keys) of
        Some t \<Rightarrow> t
      | None \<Rightarrow> ''audio/mp4'')"

text \<open>\<open>listSupportedFileExtensions\<close>, lines 50-54.\<close>

definition listSupportedFileExtensions :: "string list" where
  "listSupportedFileExtensions = map (\<lambda>(k, c). extension c) AUDIO_CONFIGS"

text \<open>\<open>isSupportedMimeType\<close>, lines 62-66.\<close>

definition isSupportedMimeType :: "string \<Rightarrow> bool" where
  "isSupportedMimeType mimeType = (mimeType \<in> set config_keys)"

text \<open>\<open>getFileExtensionOrThrow\<close>, lines 68-73: the throw is the \<open>Inl\<close> branch.\<close>

definition getFileExtensionOrThrow :: "string \<Rightarrow> js_thrown + string" where
  "getFileExtensionOrThrow mimeType =
     (if \<not> isSupportedMimeType mimeType
      then Inl (Error (''Formato no soportado: '' @ mimeType))
      else (case map_of AUDIO_CONFIGS mimeType of
              Some c \<Rightarrow> Inr (extension c)
            | None \<Rightarrow> Inl (Error (''Formato no soportado: '' @ mimeType))))"

text \<open>\<open>getMimeTypeFromExtension\<close>, lines 75-86.\<close>

definition getMimeTypeFromExtension :: "string \<Rightarrow> js_thrown + string" where
  "getMimeTypeFromExtension ext =
     (case find (\<lambda>key. (case map_of AUDIO_CONFIGS key of
                           Some c \<Rightarrow> extension c = ext | None \<Rightarrow> False)) config_keys of
        None \<Rightarrow> Inl (Error (''Formato no soportado: '' @ ext))
      | Some mimeType \<Rightarrow> Inr mimeType)"

text \<open>
  \<open>generateFileName\<close>, lines 88-92. The ISO timestamp of \<open>new Date()\<close> is a parameter;
  \<open>replace(/[:.]/g, '-')\<close> rewrites every colon and dot.
\<close>

definition sanitize_timestamp :: "string \<Rightarrow> string" where
  "sanitize_timestamp stamp = map (\<lambda>ch. if ch = CHR '':'' \<or> ch = CHR ''.'' then CHR ''-'' else ch) stamp"

definition generateFileName :: "string \<Rightarrow> string \<Rightarrow> js_thrown + string" where
  "generateFileName mimeType stamp =
     (case getFileExtensionOrThrow mimeType of
        Inl e \<Rightarrow> Inl e
      | Inr ext \<Rightarrow> Inr (''recording-'' @ sanitize_timestamp stamp @ ''.'' @ ext))"

section \<open>The recording controller (the hook \<open>useAudioRecorder\<close>, src/unnamed/part_002)\<close>

text \<open>
  The hook keeps a React state object and six refs. Each callback of the hook is a function
  from controller to controller; the private callbacks \<open>_clearTimer\<close>, \<open>_startTimer\<close>,
  \<open>_cleanTracks\<close> and \<open>_handleError\<close> are named \<open>priv_clearTimer\<close> and so on. Console logging, \<open>URL.revokeObjectURL\<close> and the test
  playback \<open>new Audio(url).play()\<close> have no effect on the controller and are left out.
  Browser objects are modelled by the part of their state the hook reads: a
  \<open>MediaStream\<close> by whether it is active (it has a live track), a \<open>MediaRecorder\<close> by
  its \<open>state\<close> attribute and by whether the five listeners of \<open>setupRecorder\<close> are
  attached. \<open>recorder.stream\<close> and \<open>mediaStreamRef.current\<close> are the same object
  (lines 331 and 342), held once, in \<open>mediaStreamRef\<close>.
\<close>

type_synonym byte = "8 word"

record blob =
  bytes :: "byte list"
  btype :: string

definition blob_size :: "blob \<Rightarrow> nat" where
  "blob_size b = length (bytes b)"

text \<open>\<open>new Blob(parts, {type})\<close>: the parts' bytes, concatenated in order.\<close>

definition new_Blob :: "blob list \<Rightarrow> string \<Rightarrow> blob" where
  "new_Blob parts ty = \<lparr>bytes = concat (map bytes parts), btype = ty\<rparr>"

datatype recording_status = Idle | Recording | Paused | Stopped

record AudioRecorderState =
  status :: recording_status
  recordingTime :: nat
  recordingBlob :: "blob option"
  blobUrl :: "nat option"
  error :: "js_thrown option"

text \<open>\<open>INITIAL_STATE\<close>, lines 13-19.\<close>

definition INITIAL_STATE :: AudioRecorderState where
  "INITIAL_STATE =
     \<lparr>status = Idle, recordingTime = 0, recordingBlob = None, blobUrl = None, error = None\<rparr>"

datatype recorder_state = Rec_inactive | Rec_recording | Rec_paused

record MediaRecorder =
  mr_state :: recorder_state
  listening :: bool

record MediaStream =
  active :: bool

record MediaDeviceInfo =
  deviceId :: string
  label :: string

text \<open>
  The controller: \<open>state\<close>, \<open>devices\<close>, \<open>currentDeviceLabel\<close> (lines 70-74), the six refs
  (lines 77-82), the variable \<open>dataReceived\<close> of the closure that \<open>setupRecorder\<close>
  creates (line 174), and a counter from which \<open>URL.createObjectURL\<close> draws fresh
  identifiers. \<open>timerIntervalRef\<close> and \<open>cleanupRef\<close> record whether the ref is non-null.
\<close>

record controller =
  state :: AudioRecorderState
  devices :: "MediaDeviceInfo list"
  currentDeviceLabel :: "string option"
  mediaRecorderRef :: "MediaRecorder option"
  mediaStreamRef :: "MediaStream option"
  chunksRef :: "blob list"
  timerIntervalRef :: bool
  mimeTypeRef :: "string option"
  cleanupRef :: bool
  dataReceived :: bool
  urlCounter :: nat

definition initial_controller :: controller where
  "initial_controller =
     \<lparr>state = INITIAL_STATE, devices = [], currentDeviceLabel = None,
      mediaRecorderRef = None, mediaStreamRef = None, chunksRef = [],
      timerIntervalRef = False, mimeTypeRef = None, cleanupRef = False,
      dataReceived = False, urlCounter = 0\<rparr>"

text \<open>\<open>_clearTimer\<close>, lines 103-107, and \<open>_startTimer\<close>, lines 110-118.\<close>

definition priv_clearTimer :: "controller \<Rightarrow> controller" where
  "priv_clearTimer c = (if \<not> timerIntervalRef c then c else c\<lparr>timerIntervalRef := False\<rparr>)"

definition priv_startTimer :: "controller \<Rightarrow> controller" where
  "priv_startTimer c = (priv_clearTimer c)\<lparr>timerIntervalRef := True\<rparr>"

text \<open>The interval's callback (lines 113-116), run once a second while the timer is set.\<close>

definition tick :: "controller \<Rightarrow> controller" where
  "tick c =
     (if timerIntervalRef c
      then c\<lparr>state := (state c)\<lparr>recordingTime := recordingTime (state c) + 1\<rparr>\<rparr>
      else c)"

text \<open>\<open>_cleanTracks(recorder)\<close>, lines 120-123: stops every track of the recorder's stream.\<close>

definition priv_cleanTracks :: "controller \<Rightarrow> controller" where
  "priv_cleanTracks c =
     (case mediaRecorderRef c of
        None \<Rightarrow> c
      | Some r \<Rightarrow> c\<lparr>mediaStreamRef := map_option (\<lambda>st. st\<lparr>active := False\<rparr>) (mediaStreamRef c)\<rparr>)"

text \<open>The function stored in \<open>cleanupRef\<close> (lines 283-289): it removes the listeners.\<close>

definition cleanup :: "controller \<Rightarrow> controller" where
  "cleanup c = c\<lparr>mediaRecorderRef := map_option (\<lambda>r. r\<lparr>listening := False\<rparr>) (mediaRecorderRef c)\<rparr>"

text \<open>
  \<open>reset\<close>, lines 137-171, exported as \<open>releaseResources\<close>. None of the calls in its
  \<open>try\<close> block throws here (\<open>stop\<close> is guarded by the state test), so the \<open>catch\<close>, which
  only logs, has no branch.
\<close>

definition reset :: "controller \<Rightarrow> controller" where
  "reset c =
     (let c1 = (case mediaRecorderRef c of
                  None \<Rightarrow> c
                | Some r \<Rightarrow>
                    priv_cleanTracks
                      (if mr_state r \<noteq> Rec_inactive
                       then c\<lparr>mediaRecorderRef := Some (r\<lparr>mr_state := Rec_inactive\<rparr>)\<rparr>
                       else c));
          c2 = (case mediaStreamRef c1 of
                  None \<Rightarrow> c1
                | Some st \<Rightarrow> c1\<lparr>mediaStreamRef := Some (st\<lparr>active := False\<rparr>)\<rparr>);
          c3 = (if cleanupRef c2 then (cleanup c2)\<lparr>cleanupRef := False\<rparr> else c2);
          c4 = c3\<lparr>mediaRecorderRef := None, mediaStreamRef := None, chunksRef := []\<rparr>
      in (priv_clearTimer c4)\<lparr>state := INITIAL_STATE\<rparr>)"

definition releaseResources :: "controller \<Rightarrow> controller" where
  "releaseResources = reset"

text \<open>\<open>_handleError\<close>, lines 125-134.\<close>

definition priv_handleError :: "js_thrown \<Rightarrow> controller \<Rightarrow> controller" where
  "priv_handleError e c =
     (let c1 = reset c
      in c1\<lparr>state := (state c1)\<lparr>status := Idle,
              error := Some (if instanceofError e then e else Error ''Unknown recording error'')\<rparr>\<rparr>)"

text \<open>\<open>URL.createObjectURL\<close>: a fresh identifier.\<close>

definition createObjectURL :: "controller \<Rightarrow> nat \<times> controller" where
  "createObjectURL c = (urlCounter c, c\<lparr>urlCounter := urlCounter c + 1\<rparr>)"

text \<open>\<open>mimeTypeRef.current!\<close> as the \<open>type\<close> option of a blob.\<close>

definition mime_of :: "controller \<Rightarrow> string" where
  "mime_of c = (case mimeTypeRef c of Some m \<Rightarrow> m | None \<Rightarrow> ''null'')"

subsection \<open>The listeners installed by \<open>setupRecorder\<close> (lines 173-290)\<close>

text \<open>\<open>handlePause\<close>, lines 176-188.\<close>

definition handlePause :: "controller \<Rightarrow> controller" where
  "handlePause c =
     (let c1 = priv_clearTimer c;
          audioBlob = new_Blob (chunksRef c1) (mime_of c1);
          (url, c2) = createObjectURL c1
      in c2\<lparr>state := (state c2)\<lparr>status := Paused, blobUrl := Some url,
                                  recordingBlob := Some audioBlob\<rparr>\<rparr>)"

text \<open>\<open>handleResume\<close>, lines 190-196.\<close>

definition handleResume :: "controller \<Rightarrow> controller" where
  "handleResume c =
     (let c1 = priv_startTimer c
      in c1\<lparr>state := (state c1)\<lparr>status := Recording\<rparr>\<rparr>)"

text \<open>
  \<open>handleDataAvailable\<close>, lines 198-220. The event's \<open>data\<close> may be absent
  (\<open>e.data?.size\<close>); the chunk is re-wrapped with the session's MIME type.
\<close>

definition handleDataAvailable :: "blob option \<Rightarrow> controller \<Rightarrow> controller" where
  "handleDataAvailable data c =
     (case data of
        None \<Rightarrow> c
      | Some d \<Rightarrow>
          if blob_size d > 0
          then (let c1 = c\<lparr>dataReceived := True\<rparr>;
                    chunk = new_Blob [d] (mime_of c1)
                in if blob_size chunk > 0 then c1\<lparr>chunksRef := chunksRef c1 @ [chunk]\<rparr> else c1)
          else c)"

text \<open>\<open>handleStop\<close>, lines 222-270: each \<open>throw\<close> lands in the \<open>catch\<close>, which calls \<open>_handleError\<close>.\<close>

definition handleStop :: "controller \<Rightarrow> controller" where
  "handleStop c =
     (if \<not> dataReceived c
      then priv_handleError (Error ''No audio data was received during recording'') c
      else if length (chunksRef c) = 0
      then priv_handleError (Error ''No audio data recorded'') c
      else (let audioBlob = new_Blob (chunksRef c) (mime_of c)
            in if blob_size audioBlob = 0
               then priv_handleError (Error ''Generated empty audio blob'') c
               else (let (url, c1) = createObjectURL c;
                         c2 = priv_clearTimer c1;
                         c3 = c2\<lparr>state := (state c2)\<lparr>status := Stopped,
                                  recordingBlob := Some audioBlob, blobUrl := Some url,
                                  error := None\<rparr>\<rparr>
                     in priv_cleanTracks c3)))"

text \<open>The \<open>error\<close> listener, lines 272-275: the \<open>ErrorEvent\<close> is not an \<open>Error\<close>.\<close>

definition handleError :: "js_thrown \<Rightarrow> controller \<Rightarrow> controller" where
  "handleError ev c = priv_handleError ev c"

text \<open>
  The browser runs a listener only while it is attached to the recorder: the listeners
  are attached in \<open>setupRecorder\<close> and removed by the function kept in \<open>cleanupRef\<close>.
\<close>

definition dispatch :: "(controller \<Rightarrow> controller) \<Rightarrow> controller \<Rightarrow> controller" where
  "dispatch h c =
     (case mediaRecorderRef c of
        None \<Rightarrow> c
      | Some r \<Rightarrow> if listening r then h c else c)"

text \<open>
  \<open>setupRecorder\<close>: a new closure with \<open>dataReceived = false\<close>, and the listeners attached
  to the recorder, which \<open>startRecording\<close> then stores in \<open>mediaRecorderRef\<close> (lines 354-356).
\<close>

definition setupRecorder :: "MediaRecorder \<Rightarrow> controller \<Rightarrow> controller" where
  "setupRecorder r c =
     c\<lparr>dataReceived := False, cleanupRef := True,
       mediaRecorderRef := Some (r\<lparr>listening := True\<rparr>)\<rparr>"

subsection \<open>The exported operations\<close>

text \<open>\<open>stopRecording\<close>, lines 386-395.\<close>

definition stopRecording :: "controller \<Rightarrow> controller" where
  "stopRecording c =
     (case mediaRecorderRef c of
        None \<Rightarrow> c
      | Some r \<Rightarrow>
          if mr_state r = Rec_inactive then c
          else (priv_clearTimer c)\<lparr>mediaRecorderRef := Some (r\<lparr>mr_state := Rec_inactive\<rparr>)\<rparr>)"

text \<open>
  \<open>MediaRecorder.pause()\<close> and \<open>resume()\<close>: the platform throws when the recorder is
  inactive and otherwise moves to \<open>paused\<close>, respectively \<open>recording\<close>.
\<close>

definition recorder_pause :: "MediaRecorder \<Rightarrow> js_thrown + MediaRecorder" where
  "recorder_pause r =
     (if mr_state r = Rec_inactive then Inl (Error ''InvalidStateError'')
      else Inr (r\<lparr>mr_state := Rec_paused\<rparr>))"

definition recorder_resume :: "MediaRecorder \<Rightarrow> js_thrown + MediaRecorder" where
  "recorder_resume r =
     (if mr_state r = Rec_inactive then Inl (Error ''InvalidStateError'')
      else Inr (r\<lparr>mr_state := Rec_recording\<rparr>))"

text \<open>\<open>togglePauseResume\<close>, lines 397-423.\<close>

definition togglePauseResume :: "controller \<Rightarrow> controller" where
  "togglePauseResume c =
     (case mediaRecorderRef c of
        None \<Rightarrow> c
      | Some r \<Rightarrow>
          if mr_state r = Rec_inactive then c
          else if status (state c) = Paused
          then (case recorder_resume r of
                  Inl e \<Rightarrow> priv_handleError e c
                | Inr r' \<Rightarrow>
                    (let c1 = priv_startTimer (c\<lparr>mediaRecorderRef := Some r'\<rparr>)
                     in c1\<lparr>state := (state c1)\<lparr>status := Recording\<rparr>\<rparr>))
          else if status (state c) = Recording
          then (case recorder_pause r of
                  Inl e \<Rightarrow> priv_handleError e c
                | Inr r' \<Rightarrow>
                    (let c1 = priv_clearTimer (c\<lparr>mediaRecorderRef := Some r'\<rparr>)
                     in c1\<lparr>state := (state c1)\<lparr>status := Paused\<rparr>\<rparr>))
          else c)"

text \<open>
  What the platform answers during one acquisition attempt: the outcome of
  \<open>getUserMedia\<close> (a rejection or a stream) and of \<open>recorder.start\<close> (a throw or not).
\<close>

record attempt_env =
  userMedia :: "js_thrown + MediaStream"
  startThrows :: "js_thrown option"

text \<open>
  The \<open>try\<close> block of \<open>startRecording\<close>, lines 293-374: one attempt. It returns what it
  threw, if anything, and the controller as the attempt left it. A new \<open>MediaRecorder\<close> is
  inactive, so the test of line 353 holds.
\<close>

definition attempt :: "(string \<Rightarrow> bool) \<Rightarrow> attempt_env \<Rightarrow> controller \<Rightarrow> js_thrown option \<times> controller" where
  "attempt isTypeSupported env c =
     (let c1 = (case mediaRecorderRef c of
                  None \<Rightarrow> c
                | Some r \<Rightarrow> if mr_state r = Rec_recording then stopRecording c else c);
          c2 = reset c1;
          c3 = c2\<lparr>currentDeviceLabel :=
                   Some (case devices c2 of
                           [] \<Rightarrow> ''Default Microphone''
                         | d # ds \<Rightarrow> if label d = [] then ''Default Microphone'' else label d)\<rparr>
      in case userMedia env of
           Inl e \<Rightarrow> (Some e, c3)
         | Inr stream \<Rightarrow>
             if \<not> active stream then (Some (Error ''Obtained inactive media stream''), c3)
             else (let c4 = c3\<lparr>mediaStreamRef := Some stream\<rparr>;
                       mimeType = getBestSupportedMimeType isTypeSupported
                   in if \<not> isTypeSupported mimeType
                      then (Some (Error (''Mime type '' @ mimeType @ '' is not supported'')), c4)
                      else (let c5 = c4\<lparr>mimeTypeRef := Some mimeType\<rparr>;
                                recorder = \<lparr>mr_state = Rec_inactive, listening = False\<rparr>;
                                c6 = setupRecorder recorder c5
                            in case startThrows env of
                                 Some e \<Rightarrow> (Some e, cleanup c6)
                               | None \<Rightarrow>
                                   (let c7 = c6\<lparr>mediaRecorderRef :=
                                               map_option (\<lambda>r. r\<lparr>mr_state := Rec_recording\<rparr>)
                                                 (mediaRecorderRef c6)\<rparr>;
                                        c8 = priv_startTimer c7
                                    in (None, c8\<lparr>state := (state c8)\<lparr>status := Recording,
                                                 recordingBlob := None, error := None\<rparr>\<rparr>)))))"

text \<open>
  \<open>startRecording(retryCount)\<close>, lines 292-383: the \<open>catch\<close> waits 1000 ms and calls
  itself with \<open>retryCount + 1\<close> while \<open>retryCount < 2\<close>, and otherwise calls
  \<open>_handleError\<close>. The result carries the delays waited, in milliseconds, one for each
  retry. The platform's answers to the attempt made with \<open>retryCount = n\<close> are \<open>envs n\<close>.
\<close>

function startRecording ::
  "(string \<Rightarrow> bool) \<Rightarrow> (nat \<Rightarrow> attempt_env) \<Rightarrow> nat \<Rightarrow> controller \<Rightarrow> controller \<times> nat list" where
  "startRecording isTypeSupported envs retryCount c =
     (case attempt isTypeSupported (envs retryCount) c of
        (None, c') \<Rightarrow> (c', [])
      | (Some e, c') \<Rightarrow>
          if retryCount < 2
          then (case startRecording isTypeSupported envs (retryCount + 1) c' of
                  (c'', delays) \<Rightarrow> (c'', 1000 # delays))
          else (priv_handleError e c', []))"
  by pat_completeness auto
termination
  by (relation "measure (\<lambda>(s, envs, retryCount, c). 3 - retryCount)") auto

declare startRecording.simps [simp del]

text \<open>
  How a failed attempt's error is surfaced by \<open>_handleError\<close> (lines 131-132).
\<close>

definition surfaced :: "js_thrown \<Rightarrow> js_thrown" where
  "surfaced e = (if instanceofError e then e else Error ''Unknown recording error'')"

text \<open>
  What an attempt throws does not depend on the controller it starts from; this is the
  thrown value of an attempt made from the initial controller.
\<close>

definition attempt_throws :: "(string \<Rightarrow> bool) \<Rightarrow> attempt_env \<Rightarrow> js_thrown option" where
  "attempt_throws isTypeSupported env = fst (attempt isTypeSupported env initial_controller)"

subsection \<open>Runs of the controller\<close>

text \<open>
  Everything that can happen to a mounted hook: the four exported operations, the five
  recorder events, the timer's tick, and the completion of \<open>enumerateDevices\<close>
  (lines 85-100). \<open>startRecording\<close> is exported with its default \<open>retryCount = 0\<close>, and
  runs to completion before the next operation.
\<close>

datatype rec_op =
    StartRecording "nat \<Rightarrow> attempt_env"
  | StopRecording
  | TogglePauseResume
  | ReleaseResources
  | DataAvailable "blob option"
  | PauseEvent
  | ResumeEvent
  | StopEvent
  | ErrorEvent
  | Tick
  | DevicesEnumerated "MediaDeviceInfo list"

fun apply_op :: "(string \<Rightarrow> bool) \<Rightarrow> rec_op \<Rightarrow> controller \<Rightarrow> controller" where
  "apply_op supported (StartRecording envs) c = fst (startRecording supported envs 0 c)"
| "apply_op supported StopRecording c = stopRecording c"
| "apply_op supported TogglePauseResume c = togglePauseResume c"
| "apply_op supported ReleaseResources c = releaseResources c"
| "apply_op supported (DataAvailable d) c = dispatch (handleDataAvailable d) c"
| "apply_op supported PauseEvent c = dispatch handlePause c"
| "apply_op supported ResumeEvent c = dispatch handleResume c"
| "apply_op supported StopEvent c = dispatch handleStop c"
| "apply_op supported ErrorEvent c = dispatch (handleError NotAnError) c"
| "apply_op supported Tick c = tick c"
| "apply_op supported (DevicesEnumerated ds) c = c\<lparr>devices := ds\<rparr>"

definition run_from :: "(string \<Rightarrow> bool) \<Rightarrow> controller \<Rightarrow> rec_op list \<Rightarrow> controller" where
  "run_from supported c ops = foldl (\<lambda>c' op. apply_op supported op c') c ops"

definition run :: "(string \<Rightarrow> bool) \<Rightarrow> rec_op list \<Rightarrow> controller" where
  "run supported ops = run_from supported initial_controller ops"

text \<open>
  A call of \<open>startRecording\<close> is not one step of the hook: between a failed attempt and
  the next one it waits 1000 ms, and the hook can be observed, and operated, in the state
  the failed attempt left. The steps of a run are therefore the operations above, a single
  attempt (the \<open>try\<close> block, lines 293-374), and the call of \<open>_handleError\<close> that ends a
  call whose last attempt failed (line 381). Calls of \<open>startRecording\<close> do not overlap:
  an attempt is one step.
\<close>

datatype rec_step =
    Whole rec_op
  | AttemptStep attempt_env
  | SurfaceStep js_thrown

fun apply_step :: "(string \<Rightarrow> bool) \<Rightarrow> rec_step \<Rightarrow> controller \<Rightarrow> controller" where
  "apply_step supported (Whole op) c = apply_op supported op c"
| "apply_step supported (AttemptStep env) c = snd (attempt supported env c)"
| "apply_step supported (SurfaceStep e) c = priv_handleError e c"

definition steps_from :: "(string \<Rightarrow> bool) \<Rightarrow> controller \<Rightarrow> rec_step list \<Rightarrow> controller" where
  "steps_from supported c steps = foldl (\<lambda>c' s. apply_step supported s c') c steps"

definition run_steps :: "(string \<Rightarrow> bool) \<Rightarrow> rec_step list \<Rightarrow> controller" where
  "run_steps supported steps = steps_from supported initial_controller steps"

text \<open>The steps that a call \<open>startRecording(retryCount)\<close> takes, one after the other.\<close>

function start_steps :: "(string \<Rightarrow> bool) \<Rightarrow> (nat \<Rightarrow> attempt_env) \<Rightarrow> nat \<Rightarrow> rec_step list" where
  "start_steps supported envs retryCount =
     (case attempt_throws supported (envs retryCount) of
        None \<Rightarrow> [AttemptStep (envs retryCount)]
      | Some e \<Rightarrow>
          if retryCount < 2
          then AttemptStep (envs retryCount) # start_steps supported envs (retryCount + 1)
          else [AttemptStep (envs retryCount), SurfaceStep e])"
  by pat_completeness auto
termination
  by (relation "measure (\<lambda>(s, envs, retryCount). 3 - retryCount)") auto

declare start_steps.simps [simp del]

text \<open>
  The operations of a session between \<open>startRecording\<close> and the \<open>stop\<close> event: chunk
  deliveries, pause and resume (the calls and their events), timer ticks.
\<close>

fun session_op :: "rec_op \<Rightarrow> bool" where
  "session_op (DataAvailable d) = True"
| "session_op TogglePauseResume = True"
| "session_op PauseEvent = True"
| "session_op ResumeEvent = True"
| "session_op Tick = True"
| "session_op other = False"

text \<open>The non-empty chunks delivered by a list of operations, in delivery order.\<close>

fun delivered :: "rec_op list \<Rightarrow> blob list" where
  "delivered [] = []"
| "delivered (DataAvailable (Some d) # ops) =
     (if blob_size d > 0 then d # delivered ops else delivered ops)"
| "delivered (other # ops) = delivered ops"

section \<open>The playback engine (src/src/hooks/audioPlayer/AudioPlayer.ts)\<close>

text \<open>
  Times are JavaScript numbers; the model takes them to be finite and uses the reals. The
  sums and differences of clock readings in \<open>getCurrentTime\<close> are taken without rounding;
  the difference \<open>duration - 0.1\<close> of the \<open>ended\<close> listener is taken as the platform
  computes it.
  The reading of \<open>audio.context.currentTime\<close> is a parameter \<open>now\<close> of every operation
  that reads the clock. An \<open>AudioContext\<close> is modelled by whether it is running or
  suspended, an \<open>AudioBuffer\<close> by its duration, a source node by its presence. Calls into
  the Web Audio API succeed, except where the class itself handles their failure: the
  outcome of the steps inside the \<open>try\<close> blocks of \<open>loadAudio\<close> and \<open>play\<close> is a
  parameter. An \<open>async\<close> method runs to completion before the next operation, except
  \<open>pause\<close> inside \<open>dispose\<close>, which \<open>dispose\<close> does not await.
\<close>

text \<open>\<open>AudioPlayerState\<close>, lines 1-6: the published snapshot (fields prefixed \<open>snap_\<close>).\<close>

record AudioPlayerState =
  snap_isPlaying :: bool
  snap_isReady :: bool
  snap_currentTime :: real
  snap_duration :: real

text \<open>\<open>AudioPlayerInternalState\<close>, lines 8-17; \<open>id\<close> and \<open>error\<close> are \<open>player_id\<close> and \<open>player_error\<close>.\<close>

record AudioPlayerInternalState =
  player_id :: string
  isPlaying :: bool
  isReady :: bool
  currentTime :: real
  offset :: real
  duration :: real
  startTime :: real
  player_error :: "js_thrown option"

datatype context_state = Ctx_running | Ctx_suspended

datatype source_node = BufferSource

text \<open>
  The fields of the class (lines 32-57): \<open>state\<close> (here \<open>pstate\<close>), the three members of \<open>audio\<close>,
  \<open>stableSnapshot\<close>, \<open>lastSnapshot\<close>, \<open>timeUpdateId\<close>. The subscribers are modelled by
  the number of times \<open>notify\<close> has called them. Four counters record what the engine
  did to the platform: contexts closed, source nodes started whose \<open>ended\<close> event is
  still to come, \<open>pause\<close> calls of \<open>dispose\<close> still waiting for \<open>suspend\<close>, and animation
  frames requested.
\<close>

record player =
  pstate :: AudioPlayerInternalState
  audio_context :: "context_state option"
  audio_source :: "source_node option"
  audio_buffer :: "real option"
  stableSnapshot :: AudioPlayerState
  lastSnapshot :: "AudioPlayerState option"
  timeUpdateId :: "nat option"
  notifications :: nat
  closedContexts :: nat
  liveNodes :: nat
  pendingPause :: nat
  frameCounter :: nat

definition default_snapshot :: AudioPlayerState where
  "default_snapshot =
     \<lparr>snap_isPlaying = False, snap_isReady = False, snap_currentTime = 0, snap_duration = 0\<rparr>"

definition default_state :: "string \<Rightarrow> AudioPlayerInternalState" where
  "default_state ident =
     \<lparr>player_id = ident, isPlaying = False, isReady = False, currentTime = 0, offset = 0,
      duration = 0, startTime = 0, player_error = None\<rparr>"

definition initial_player :: player where
  "initial_player =
     \<lparr>pstate = default_state ''player-1'', audio_context = None, audio_source = None,
      audio_buffer = None, stableSnapshot = default_snapshot, lastSnapshot = None,
      timeUpdateId = None, notifications = 0, closedContexts = 0, liveNodes = 0,
      pendingPause = 0, frameCounter = 0\<rparr>"

text \<open>\<open>getCurrentTime\<close>, lines 59-65.\<close>

definition getCurrentTime :: "real \<Rightarrow> player \<Rightarrow> real" where
  "getCurrentTime now p =
     (if \<not> isPlaying (pstate p) then offset (pstate p)
      else if audio_context p = None then 0
      else now - startTime (pstate p) + offset (pstate p))"

text \<open>\<open>notify\<close>, lines 113-117.\<close>

definition notify :: "player \<Rightarrow> player" where
  "notify p = p\<lparr>notifications := notifications p + 1\<rparr>"

text \<open>
  \<open>JSON.stringify\<close> of the internal state, as far as \<open>transition\<close> compares it: an
  \<open>Error\<close> has no enumerable property of its own and prints as an empty object, an
  \<open>AudioPlayerError\<close> prints its \<open>code\<close> and \<open>name\<close>.
\<close>

fun stringify_error :: "js_thrown option \<Rightarrow> string" where
  "stringify_error None = ''null''"
| "stringify_error (Some (AudioPlayerError m LOAD_ERROR)) = ''{code:LOAD_ERROR,name:AudioPlayerError}''"
| "stringify_error (Some (AudioPlayerError m PLAYBACK_ERROR)) = ''{code:PLAYBACK_ERROR,name:AudioPlayerError}''"
| "stringify_error (Some e) = ''{}''"

definition stringify_state ::
  "AudioPlayerInternalState \<Rightarrow> string \<times> bool \<times> bool \<times> real \<times> real \<times> real \<times> real \<times> string" where
  "stringify_state s =
     (player_id s, isPlaying s, isReady s, currentTime s, offset s, duration s, startTime s,
      stringify_error (player_error s))"

text \<open>
  \<open>transition\<close>, lines 119-126. The partial update is a function on the internal state.
\<close>

definition transition ::
  "(AudioPlayerInternalState \<Rightarrow> AudioPlayerInternalState) \<Rightarrow> player \<Rightarrow> player" where
  "transition updates p =
     (let prevState = pstate p;
          p1 = p\<lparr>pstate := updates prevState\<rparr>
      in if stringify_state prevState \<noteq> stringify_state (pstate p1) then notify p1 else p1)"

text \<open>\<open>stopTimeUpdates\<close>, lines 153-158, and \<open>setupTimeUpdates\<close>, lines 140-151.\<close>

definition stopTimeUpdates :: "player \<Rightarrow> player" where
  "stopTimeUpdates p = (if timeUpdateId p \<noteq> None then p\<lparr>timeUpdateId := None\<rparr> else p)"

definition requestAnimationFrame :: "player \<Rightarrow> player" where
  "requestAnimationFrame p =
     p\<lparr>timeUpdateId := Some (frameCounter p), frameCounter := frameCounter p + 1\<rparr>"

definition setupTimeUpdates :: "player \<Rightarrow> player" where
  "setupTimeUpdates p = requestAnimationFrame (stopTimeUpdates p)"

text \<open>\<open>updateCurrentTime\<close>, lines 128-138.\<close>

definition updateCurrentTime :: "real \<Rightarrow> player \<Rightarrow> player" where
  "updateCurrentTime now p =
     (if audio_context p = None then p
      else (let t = (if isPlaying (pstate p)
                     then now - startTime (pstate p) + offset (pstate p)
                     else offset (pstate p))
            in transition (\<lambda>s. s\<lparr>currentTime := t\<rparr>) p))"

text \<open>The callback \<open>updateTime\<close> of \<open>setupTimeUpdates\<close> (lines 143-148), run at a frame.\<close>

definition updateTime :: "real \<Rightarrow> player \<Rightarrow> player" where
  "updateTime now p =
     (if isPlaying (pstate p) then requestAnimationFrame (updateCurrentTime now p) else p)"

text \<open>
  \<open>setupSource\<close>, lines 68-88: the node it returns, if any. The \<open>onended\<close> listener it
  installs is \<open>onended\<close> below.
\<close>

definition setupSource :: "player \<Rightarrow> source_node option" where
  "setupSource p =
     (if audio_context p = None \<or> audio_buffer p = None then None else Some BufferSource)"

text \<open>
  The literal \<open>0.1\<close> of line 79 is a double: the one nearest to one tenth, which is this
  number.
\<close>

definition js_tenth :: real where
  "js_tenth = 3602879701896397 / 36028797018963968"

text \<open>
  The \<open>onended\<close> listener, lines 76-85. Reading \<open>duration\<close> of a null buffer throws a
  \<open>TypeError\<close>. The threshold \<open>duration - 0.1\<close> is computed in double precision, and the
  result is rounded: the platform's subtraction of doubles is the parameter \<open>dsub\<close>, and
  the derived time is compared with the double \<open>dsub d js_tenth\<close>.
\<close>

definition onended :: "(real \<Rightarrow> real \<Rightarrow> real) \<Rightarrow> real \<Rightarrow> player \<Rightarrow> js_thrown + player" where
  "onended dsub now p =
     (let t = getCurrentTime now p
      in case audio_buffer p of
           None \<Rightarrow> Inl (Error ''TypeError: Cannot read properties of null'')
         | Some d \<Rightarrow>
             if \<not> (t \<ge> dsub d js_tenth) then Inr p
             else Inr (notify (stopTimeUpdates
                    (p\<lparr>pstate := (pstate p)\<lparr>offset := 0, isPlaying := False\<rparr>,
                       audio_source := None\<rparr>))))"

text \<open>\<open>handleError\<close>, lines 90-98: the error it throws and the player it leaves.\<close>

definition player_handleError :: "js_thrown \<Rightarrow> error_code \<Rightarrow> player \<Rightarrow> js_thrown \<times> player" where
  "player_handleError e code p =
     (AudioPlayerError (if instanceofError e then message e else ''Unknown error'') code,
      transition (\<lambda>s. s\<lparr>isReady := False\<rparr>) p)"

text \<open>\<open>startPlayback\<close>, lines 100-111.\<close>

definition startPlayback :: "real \<Rightarrow> player \<Rightarrow> player" where
  "startPlayback now p =
     (if audio_context p = None then p
      else (let p1 = p\<lparr>audio_source := setupSource p\<rparr>
            in if audio_source p1 = None then p1
               else transition (\<lambda>s. s\<lparr>isPlaying := True, startTime := now\<rparr>)
                      (p1\<lparr>liveNodes := liveNodes p1 + 1\<rparr>)))"

text \<open>\<open>getSnapshot\<close>, lines 160-175: the snapshot returned, and the player with its cache.\<close>

definition getSnapshot :: "real \<Rightarrow> player \<Rightarrow> AudioPlayerState \<times> player" where
  "getSnapshot now p =
     (let newSnapshot =
            \<lparr>snap_isPlaying = isPlaying (pstate p), snap_isReady = isReady (pstate p),
             snap_currentTime = getCurrentTime now p,
             snap_duration = (case audio_buffer p of Some d \<Rightarrow> d | None \<Rightarrow> 0)\<rparr>;
          p1 = (if stableSnapshot p \<noteq> newSnapshot then p\<lparr>stableSnapshot := newSnapshot\<rparr> else p)
      in (stableSnapshot p1, p1))"

text \<open>
  What the platform answers during \<open>loadAudio\<close>: the first step of the \<open>try\<close> block that
  fails, or the decoded buffer's duration; and whether \<open>close\<close>, awaited in the \<open>catch\<close>
  block, rejects.
\<close>

datatype load_outcome =
    Context_fails js_thrown
  | Fetch_fails js_thrown
  | Decode_fails js_thrown
  | Decoded real

record load_env =
  outcome :: load_outcome
  closeRejects :: "js_thrown option"

text \<open>
  The \<open>catch\<close> block of \<open>loadAudio\<close>, lines 200-216. It does not rethrow: the promise
  rejects only if \<open>close\<close> does.
\<close>

definition loadAudio_catch :: "load_env \<Rightarrow> js_thrown \<Rightarrow> player \<Rightarrow> js_thrown option \<times> player" where
  "loadAudio_catch env e p =
     (let cleared = (\<lambda>q. transition
                       (\<lambda>s. s\<lparr>isReady := False, player_error := Some e, isPlaying := False,
                               offset := 0, currentTime := 0, duration := 0\<rparr>)
                       (q\<lparr>audio_buffer := None\<rparr>))
      in case audio_context p of
           None \<Rightarrow> (None, cleared p)
         | Some cs \<Rightarrow>
             (case closeRejects env of
                Some ce \<Rightarrow> (Some ce, p)
              | None \<Rightarrow>
                  (None, cleared (p\<lparr>audio_context := None,
                                    closedContexts := closedContexts p + 1\<rparr>))))"

text \<open>Lines 188-192: the context is created when there is none, and suspended otherwise.\<close>

definition acquire_context :: "player \<Rightarrow> player" where
  "acquire_context p =
     (case audio_context p of
        None \<Rightarrow> p\<lparr>audio_context := Some Ctx_running\<rparr>
      | Some cs \<Rightarrow> p\<lparr>audio_context := Some Ctx_suspended\<rparr>)"

text \<open>
  \<open>loadAudio\<close>, lines 186-217: what the returned promise rejects with, if it rejects, and
  the player afterwards. When the first step fails (the constructor throws, or \<open>suspend\<close>
  rejects) the context is as it was. The node made by the final \<open>setupSource\<close> call is
  dropped.
\<close>

definition loadAudio :: "load_env \<Rightarrow> player \<Rightarrow> js_thrown option \<times> player" where
  "loadAudio env p =
     (case outcome env of
        Context_fails e \<Rightarrow> loadAudio_catch env e p
      | Fetch_fails e \<Rightarrow> loadAudio_catch env e (acquire_context p)
      | Decode_fails e \<Rightarrow> loadAudio_catch env e (acquire_context p)
      | Decoded d \<Rightarrow>
          (None, transition (\<lambda>s. s\<lparr>offset := 0, isReady := True\<rparr>)
                   ((acquire_context p)\<lparr>audio_buffer := Some d\<rparr>)))"

text \<open>
  \<open>play\<close>, lines 219-241. The parameter says whether \<open>resume\<close> rejects; \<open>start\<close> is called
  on a new node. The result is the error the promise rejects with, if any.
\<close>

definition play :: "js_thrown option \<Rightarrow> real \<Rightarrow> player \<Rightarrow> js_thrown option \<times> player" where
  "play resumeRejects now p =
     (if audio_context p = None \<or> audio_buffer p = None \<or> isPlaying (pstate p) then (None, p)
      else (case resumeRejects of
              Some e \<Rightarrow> (case player_handleError e PLAYBACK_ERROR p of (err, p') \<Rightarrow> (Some err, p'))
            | None \<Rightarrow>
                (let p1 = p\<lparr>audio_context := Some Ctx_running\<rparr>;
                     p2 = p1\<lparr>audio_source := setupSource p1\<rparr>
                 in if audio_source p2 = None then (None, p2)
                    else (let p3 = p2\<lparr>liveNodes := liveNodes p2 + 1\<rparr>;
                              p4 = setupTimeUpdates p3
                          in (None, transition (\<lambda>s. s\<lparr>isPlaying := True, startTime := now\<rparr>) p4)))))"

text \<open>
  \<open>pause\<close>, lines 243-258, in two parts: up to the \<open>await\<close> of \<open>suspend\<close> (the result
  says whether the method got that far), and from there on.
\<close>

definition pause_begin :: "player \<Rightarrow> bool \<times> player" where
  "pause_begin p =
     (if audio_context p = None \<or> \<not> isPlaying (pstate p) then (False, p)
      else (True, p\<lparr>audio_source := None, audio_context := Some Ctx_suspended\<rparr>))"

definition pause_finish :: "real \<Rightarrow> player \<Rightarrow> player" where
  "pause_finish now p =
     (let p1 = stopTimeUpdates p;
          t = getCurrentTime now p1
      in transition (\<lambda>s. s\<lparr>isPlaying := False, offset := t, isReady := True\<rparr>) p1)"

definition pause :: "real \<Rightarrow> player \<Rightarrow> player" where
  "pause now p = (case pause_begin p of (False, p1) \<Rightarrow> p1 | (True, p1) \<Rightarrow> pause_finish now p1)"

text \<open>\<open>seek\<close>, lines 260-277.\<close>

definition seek :: "real \<Rightarrow> real \<Rightarrow> player \<Rightarrow> player" where
  "seek time now p =
     (case audio_buffer p of
        None \<Rightarrow> p
      | Some d \<Rightarrow>
          (let wasPlaying = isPlaying (pstate p);
               p1 = (if audio_source p \<noteq> None then p\<lparr>audio_source := None\<rparr> else p);
               p2 = p1\<lparr>pstate := (pstate p1)\<lparr>offset := max 0 (min time d)\<rparr>\<rparr>
           in if wasPlaying then startPlayback now p2 else notify p2))"

text \<open>
  \<open>toggle\<close>, lines 279-285. It returns nothing: the promise of \<open>play\<close> is dropped, so a
  rejection of \<open>play\<close> reaches no caller, and only the player \<open>play\<close> leaves is kept.
\<close>

definition toggle :: "js_thrown option \<Rightarrow> real \<Rightarrow> player \<Rightarrow> player" where
  "toggle resumeRejects now p =
     (if isPlaying (pstate p) then pause now p else snd (play resumeRejects now p))"

text \<open>
  \<open>dispose\<close>, lines 287-313. It calls \<open>pause\<close> without awaiting it: the part of \<open>pause\<close>
  after its \<open>await\<close> is left pending and runs later, as \<open>pause_continues\<close>.
\<close>

definition dispose :: "player \<Rightarrow> player" where
  "dispose p =
     (let (suspended, p1) = pause_begin p;
          p2 = (if suspended then p1\<lparr>pendingPause := pendingPause p1 + 1\<rparr> else p1);
          p3 = stopTimeUpdates p2;
          p4 = (if audio_context p3 \<noteq> None
                then p3\<lparr>audio_context := None, closedContexts := closedContexts p3 + 1\<rparr>
                else p3)
      in p4\<lparr>audio_buffer := None, lastSnapshot := None, stableSnapshot := default_snapshot,
            pstate := default_state (player_id (pstate p4))\<rparr>)"

definition pause_continues :: "real \<Rightarrow> player \<Rightarrow> player" where
  "pause_continues now p =
     (if pendingPause p = 0 then p
      else pause_finish now (p\<lparr>pendingPause := pendingPause p - 1\<rparr>))"

text \<open>
  The \<open>ended\<close> event of a started node: the platform fires it once per started node,
  when the node is stopped or has played its buffer to the end. An error thrown by the
  listener is reported by the platform and leaves the player as it was. The event comes
  with the platform's subtraction of doubles, which the listener uses.
\<close>

definition ended_event :: "(real \<Rightarrow> real \<Rightarrow> real) \<Rightarrow> real \<Rightarrow> player \<Rightarrow> player" where
  "ended_event dsub now p =
     (if liveNodes p = 0 then p
      else (let p1 = p\<lparr>liveNodes := liveNodes p - 1\<rparr>
            in case onended dsub now p1 of Inl e \<Rightarrow> p1 | Inr p2 \<Rightarrow> p2))"

text \<open>An animation frame runs \<open>updateTime\<close> when a request is outstanding.\<close>

definition animation_frame :: "real \<Rightarrow> player \<Rightarrow> player" where
  "animation_frame now p = (if timeUpdateId p = None then p else updateTime now p)"

subsection \<open>Runs of the engine\<close>

datatype player_op =
    LoadAudio load_env
  | Play "js_thrown option" real
  | Pause real
  | Seek real real
  | Toggle "js_thrown option" real
  | Dispose
  | GetSnapshot real
  | EndedEvent "real \<Rightarrow> real \<Rightarrow> real" real
  | AnimationFrame real
  | PauseContinues real

fun apply_player_op :: "player_op \<Rightarrow> player \<Rightarrow> player" where
  "apply_player_op (LoadAudio env) p = snd (loadAudio env p)"
| "apply_player_op (Play r now) p = snd (play r now p)"
| "apply_player_op (Pause now) p = pause now p"
| "apply_player_op (Seek time now) p = seek time now p"
| "apply_player_op (Toggle r now) p = toggle r now p"
| "apply_player_op Dispose p = dispose p"
| "apply_player_op (GetSnapshot now) p = snd (getSnapshot now p)"
| "apply_player_op (EndedEvent dsub now) p = ended_event dsub now p"
| "apply_player_op (AnimationFrame now) p = animation_frame now p"
| "apply_player_op (PauseContinues now) p = pause_continues now p"

definition player_run :: "player_op list \<Rightarrow> player" where
  "player_run ops = foldl (\<lambda>p op. apply_player_op op p) initial_player ops"

section \<open>Predicates and sample inputs used in the statements\<close>

text \<open>
  A controller on which \<open>startRecording\<close> has just succeeded (lines 354-368): the recorder
  is stored, recording and listened to, the session's MIME type is the selected one, no
  chunk has arrived, the timer runs.
\<close>

definition started :: "(string \<Rightarrow> bool) \<Rightarrow> controller \<Rightarrow> bool" where
  "started supported c \<longleftrightarrow>
     mediaRecorderRef c = Some \<lparr>mr_state = Rec_recording, listening = True\<rparr> \<and>
     mimeTypeRef c = Some (getBestSupportedMimeType supported) \<and>
     chunksRef c = [] \<and> \<not> dataReceived c \<and> timerIntervalRef c \<and>
     status (state c) = Recording \<and> error (state c) = None \<and> recordingBlob (state c) = None"

text \<open>
  A controller in a session with MIME type \<open>m\<close> to which the non-empty chunks \<open>ds\<close> have
  been delivered, in this order.
\<close>

definition in_session :: "string \<Rightarrow> blob list \<Rightarrow> controller \<Rightarrow> bool" where
  "in_session m ds c \<longleftrightarrow>
     (\<exists>r. mediaRecorderRef c = Some r \<and> listening r) \<and> mimeTypeRef c = Some m \<and>
     chunksRef c = map (\<lambda>d. new_Blob [d] m) ds \<and> dataReceived c = (ds \<noteq> [])"

text \<open>Sample answers of the platform, and sample chunks.\<close>

definition good_env :: attempt_env where
  "good_env = \<lparr>userMedia = Inr \<lparr>active = True\<rparr>, startThrows = None\<rparr>"

definition denied_env :: attempt_env where
  "denied_env = \<lparr>userMedia = Inl (Error ''Permission denied''), startThrows = None\<rparr>"

text \<open>A platform that denies the first attempt and grants the following ones.\<close>

definition denied_once :: "nat \<Rightarrow> attempt_env" where
  "denied_once n = (if n = 0 then denied_env else good_env)"

definition chunk_of_size :: "nat \<Rightarrow> blob" where
  "chunk_of_size n = \<lparr>bytes = replicate n 0, btype = ''audio/webm;codecs=opus''\<rparr>"

text \<open>
  Scenario A with a pause and a resume in it: a chunk of 10 bytes, pause, resume, chunks
  of 20 and 30 bytes.
\<close>

definition scenario_A :: "rec_op list" where
  "scenario_A =
     [DataAvailable (Some (chunk_of_size 10)), TogglePauseResume, PauseEvent,
      TogglePauseResume, ResumeEvent,
      DataAvailable (Some (chunk_of_size 20)), DataAvailable (Some (chunk_of_size 30))]"

text \<open>A session in which only an empty chunk and a missing one are delivered.\<close>

definition silent_session :: "rec_op list" where
  "silent_session =
     [DataAvailable (Some (chunk_of_size 0)), TogglePauseResume, PauseEvent,
      TogglePauseResume, ResumeEvent, DataAvailable None]"

text \<open>A platform on which the stream is acquired and \<open>recorder.start\<close> throws.\<close>

definition start_throws_env :: attempt_env where
  "start_throws_env =
     \<lparr>userMedia = Inr \<lparr>active = True\<rparr>, startThrows = Some (Error ''NotSupportedError'')\<rparr>"


text \<open>A clip of ten seconds, loaded.\<close>

definition ten_seconds :: load_env where
  "ten_seconds = \<lparr>outcome = Decoded 10, closeRejects = None\<rparr>"

definition fetch_failure :: load_env where
  "fetch_failure = \<lparr>outcome = Fetch_fails (Error ''Failed to fetch''), closeRejects = None\<rparr>"

text \<open>In every reachable engine, a loaded buffer has its context.\<close>

definition buffer_has_context :: "player \<Rightarrow> bool" where
  "buffer_has_context p \<longleftrightarrow> (audio_buffer p = None \<or> audio_context p \<noteq> None)"

section \<open>Properties of the format table\<close>

lemma find_sort_key_least:
  assumes "find P (sort_key f xs) = Some x"
  shows "P x \<and> x \<in> set xs \<and> (\<forall>y\<in>set xs. P y \<longrightarrow> f x \<le> f y)"
proof -
  let ?ys = "sort_key f xs"
  from assms obtain i where i: "i < length ?ys" "P (?ys ! i)" "x = ?ys ! i" "\<forall>j<i. \<not> P (?ys ! j)"
    by (auto simp: find_Some_iff)
  have srt: "sorted (map f ?ys)" by simp
  have "f x \<le> f y" if y: "y \<in> set xs" "P y" for y
  proof -
    from y have "y \<in> set ?ys" by simp
    then obtain j where j: "j < length ?ys" "?ys ! j = y" by (metis in_set_conv_nth)
    with i y have "\<not> j < i" by auto
    then have "i \<le> j" by simp
    with srt j have "map f ?ys ! i \<le> map f ?ys ! j"
      by (intro sorted_nth_mono) auto
    with i j show ?thesis by simp
  qed
  moreover have "x \<in> set xs" using i by (metis nth_mem set_sort)
  ultimately show ?thesis using i by blast
qed

lemma find_None_sort_key: "find P (sort_key f xs) = None \<longleftrightarrow> (\<forall>x\<in>set xs. \<not> P x)"
  by (auto simp: find_None_iff)

lemma mp4_in_keys: "''audio/mp4'' \<in> set config_keys"
  by (simp add: config_keys_def AUDIO_CONFIGS_def)

lemma priority_of_inj:
  "a \<in> set config_keys \<Longrightarrow> b \<in> set config_keys \<Longrightarrow> priority_of a = priority_of b \<Longrightarrow> a = b"
  by (auto simp: config_keys_def AUDIO_CONFIGS_def priority_of_def)

lemma getBest_in_keys: "getBestSupportedMimeType supported \<in> set config_keys"
proof (cases "find supported (sort_key priority_of config_keys)")
  case None
  then show ?thesis by (simp add: getBestSupportedMimeType_def mp4_in_keys)
next
  case (Some t)
  then show ?thesis
    using find_sort_key_least[OF Some] by (simp add: getBestSupportedMimeType_def)
qed

lemma getBest_none:
  assumes "\<forall>t\<in>set config_keys. \<not> supported t"
  shows "getBestSupportedMimeType supported = ''audio/mp4''"
    and "\<not> supported (getBestSupportedMimeType supported)"
proof -
  from assms have "find supported (sort_key priority_of config_keys) = None"
    by (simp add: find_None_sort_key)
  then show "getBestSupportedMimeType supported = ''audio/mp4''"
    by (simp add: getBestSupportedMimeType_def)
  with assms mp4_in_keys show "\<not> supported (getBestSupportedMimeType supported)" by simp
qed

lemma getBest_some:
  assumes "t \<in> set config_keys" and "supported t"
  shows "supported (getBestSupportedMimeType supported)"
    and "priority_of (getBestSupportedMimeType supported) \<le> priority_of t"
proof -
  from assms have "find supported (sort_key priority_of config_keys) \<noteq> None"
    by (auto simp: find_None_sort_key)
  then obtain m where m: "find supported (sort_key priority_of config_keys) = Some m" by blast
  then have b: "getBestSupportedMimeType supported = m" by (simp add: getBestSupportedMimeType_def)
  from find_sort_key_least[OF m] assms b
  show "supported (getBestSupportedMimeType supported)"
    and "priority_of (getBestSupportedMimeType supported) \<le> priority_of t"
    by auto
qed

text \<open>
  C10. Whatever the platform supports, the MIME type that \<open>getBestSupportedMimeType\<close>
  returns is a key of \<open>AUDIO_CONFIGS\<close> (the default \<open>audio/mp4\<close> is one of them), so
  \<open>getFileExtensionOrThrow\<close> and \<open>generateFileName\<close> return on it and do not throw.
\<close>

theorem best_mime_type_is_table_key:
  "isSupportedMimeType (getBestSupportedMimeType supported) \<and>
   isSupportedMimeType ''audio/mp4'' \<and>
   (\<exists>ext. getFileExtensionOrThrow (getBestSupportedMimeType supported) = Inr ext \<and>
          ext \<in> set listSupportedFileExtensions) \<and>
   (\<exists>ext. generateFileName (getBestSupportedMimeType supported) stamp =
            Inr (''recording-'' @ sanitize_timestamp stamp @ ''.'' @ ext))"
proof -
  let ?m = "getBestSupportedMimeType supported"
  have k: "?m \<in> set config_keys" by (rule getBest_in_keys)
  then have s: "isSupportedMimeType ?m" by (simp add: isSupportedMimeType_def)
  from k obtain c where c: "map_of AUDIO_CONFIGS ?m = Some c"
    unfolding config_keys_def by (metis map_of_eq_None_iff not_Some_eq set_map)
  then have i: "(?m, c) \<in> set AUDIO_CONFIGS" by (rule map_of_SomeD)
  from c s have e: "getFileExtensionOrThrow ?m = Inr (extension c)"
    by (simp add: getFileExtensionOrThrow_def)
  have "extension c \<in> set listSupportedFileExtensions"
    using i by (force simp: listSupportedFileExtensions_def)
  with s e mp4_in_keys show ?thesis
    by (simp add: generateFileName_def isSupportedMimeType_def)
qed

theorem best_mime_type_is_table_key_witness:
  "isSupportedMimeType (getBestSupportedMimeType (\<lambda>t. t = ''audio/mpeg'')) \<and>
   getFileExtensionOrThrow (getBestSupportedMimeType (\<lambda>t. t = ''audio/mpeg'')) = Inr ''mp3'' \<and>
   generateFileName (getBestSupportedMimeType (\<lambda>t. False)) ''2024-01-02T03:04:05.000Z''
     = Inr ''recording-2024-01-02T03-04-05-000Z.mp4''"
proof -
  have a: "getBestSupportedMimeType (\<lambda>t. t = ''audio/mpeg'') = ''audio/mpeg''"
    by (simp add: getBestSupportedMimeType_def config_keys_def AUDIO_CONFIGS_def priority_of_def)
  have b: "getBestSupportedMimeType (\<lambda>t. False) = ''audio/mp4''"
    by (simp add: getBestSupportedMimeType_def config_keys_def AUDIO_CONFIGS_def priority_of_def)
  have c: "getFileExtensionOrThrow ''audio/mpeg'' = Inr ''mp3''"
    by (simp add: getFileExtensionOrThrow_def isSupportedMimeType_def config_keys_def
        AUDIO_CONFIGS_def)
  have d: "generateFileName ''audio/mp4'' ''2024-01-02T03:04:05.000Z''
             = Inr ''recording-2024-01-02T03-04-05-000Z.mp4''"
    by (simp add: generateFileName_def getFileExtensionOrThrow_def isSupportedMimeType_def
        config_keys_def AUDIO_CONFIGS_def sanitize_timestamp_def)
  from best_mime_type_is_table_key[of "\<lambda>t. t = ''audio/mpeg''" "''2024-01-02T03:04:05.000Z''"]
  have "isSupportedMimeType (getBestSupportedMimeType (\<lambda>t. t = ''audio/mpeg''))" by blast
  with a b c d show ?thesis by simp
qed

section \<open>Properties of the recording controller\<close>

subsection \<open>Timer, reset and the error path\<close>

lemma clearTimer_eq: "priv_clearTimer c = c\<lparr>timerIntervalRef := False\<rparr>"
  by (cases c) (simp add: priv_clearTimer_def)

lemma startTimer_eq: "priv_startTimer c = c\<lparr>timerIntervalRef := True\<rparr>"
  by (simp add: priv_startTimer_def clearTimer_eq)

lemma reset_fields:
  "state (reset c) = INITIAL_STATE" "mediaRecorderRef (reset c) = None"
  "mediaStreamRef (reset c) = None" "chunksRef (reset c) = []"
  "\<not> timerIntervalRef (reset c)" "\<not> cleanupRef (reset c)"
  "devices (reset c) = devices c" "mimeTypeRef (reset c) = mimeTypeRef c"
  "dataReceived (reset c) = dataReceived c" "urlCounter (reset c) = urlCounter c"
  "currentDeviceLabel (reset c) = currentDeviceLabel c"
  by (simp_all add: reset_def priv_cleanTracks_def cleanup_def clearTimer_eq Let_def
      split: option.splits)

lemma reset_idem: "reset (reset c) = reset c"
  by (simp add: reset_def priv_cleanTracks_def cleanup_def clearTimer_eq Let_def
      split: option.splits)

lemma handleError_fields:
  "state (priv_handleError e c) = INITIAL_STATE\<lparr>error := Some (surfaced e)\<rparr>"
  "mediaRecorderRef (priv_handleError e c) = None"
  "mediaStreamRef (priv_handleError e c) = None"
  "chunksRef (priv_handleError e c) = []"
  "\<not> timerIntervalRef (priv_handleError e c)"
  "\<not> cleanupRef (priv_handleError e c)"
  by (simp_all add: priv_handleError_def Let_def reset_fields surfaced_def INITIAL_STATE_def)

subsection \<open>One attempt, and the retry loop\<close>

lemma attempt_fst: "fst (attempt supported env c) = attempt_throws supported env"
  by (simp add: attempt_throws_def attempt_def Let_def split: sum.splits option.splits)

lemma attempt_success:
  assumes "attempt supported env c = (None, c')"
  shows "started supported c'"
  using assms
  by (auto simp: attempt_def Let_def started_def setupRecorder_def startTimer_eq
        clearTimer_eq reset_fields split: sum.splits option.splits if_splits)

lemma attempt_unsupported:
  assumes "\<not> supported (getBestSupportedMimeType supported)"
  shows "attempt_throws supported env \<noteq> None"
    and "userMedia env = Inr st \<Longrightarrow> active st \<Longrightarrow>
           attempt_throws supported env =
             Some (Error (''Mime type '' @ getBestSupportedMimeType supported @ '' is not supported''))"
  using assms
  by (auto simp: attempt_throws_def attempt_def Let_def split: sum.splits option.splits)

lemma startRecording_retries:
  assumes "startRecording supported envs k c = (c', delays)"
  shows "k + length delays \<le> max k 2 \<and> delays = replicate (length delays) 1000 \<and>
         (\<forall>j<length delays. attempt_throws supported (envs (k + j)) \<noteq> None) \<and>
         (case attempt_throws supported (envs (k + length delays)) of
            None \<Rightarrow> started supported c'
          | Some e \<Rightarrow> 2 \<le> k + length delays \<and>
              state c' = INITIAL_STATE\<lparr>error := Some (surfaced e)\<rparr> \<and>
              mediaRecorderRef c' = None \<and> mediaStreamRef c' = None \<and> chunksRef c' = [] \<and>
              \<not> timerIntervalRef c' \<and> \<not> cleanupRef c')"
  using assms
proof (induction supported envs k c arbitrary: c' delays rule: startRecording.induct)
  case (1 supported envs k c)
  obtain r c1 where a: "attempt supported (envs k) c = (r, c1)"
    by (cases "attempt supported (envs k) c")
  then have t: "attempt_throws supported (envs k) = r"
    using attempt_fst[of supported "envs k" c] by simp
  show ?case
  proof (cases r)
    case None
    with a "1.prems" have "c' = c1" "delays = []" by (simp_all add: startRecording.simps)
    with attempt_success a None t show ?thesis by simp
  next
    case (Some e)
    show ?thesis
    proof (cases "k < 2")
      case True
      obtain c2 ds2 where r: "startRecording supported envs (k + 1) c1 = (c2, ds2)"
        by (cases "startRecording supported envs (k + 1) c1")
      with a Some True "1.prems" have eq: "c' = c2" "delays = 1000 # ds2"
        by (simp_all add: startRecording.simps)
      note ih = "1.IH"[OF a[symmetric] Some True r]
      have "attempt_throws supported (envs (k + j)) \<noteq> None" if "j < length delays" for j
      proof (cases j)
        case 0
        with t Some show ?thesis by simp
      next
        case (Suc i)
        with that eq have "i < length ds2" by simp
        with ih have "attempt_throws supported (envs (k + 1 + i)) \<noteq> None" by blast
        with Suc show ?thesis by simp
      qed
      moreover have "delays = replicate (length delays) 1000"
        using ih eq by simp
      moreover have "k + length delays \<le> max k 2" using ih eq True by simp
      moreover have "k + length delays = k + 1 + length ds2" using eq by simp
      ultimately show ?thesis using ih eq True
        by (auto split: option.splits)
    next
      case False
      with a Some "1.prems" have "c' = priv_handleError e c1" "delays = []"
        by (simp_all add: startRecording.simps)
      with False t Some show ?thesis by (simp add: handleError_fields)
    qed
  qed
qed

lemma startRecording_cases:
  assumes "startRecording supported envs 0 c = (c', delays)"
  shows "started supported c' \<or> (status (state c') = Idle \<and> mediaRecorderRef c' = None)"
  using startRecording_retries[OF assms]
  by (auto simp: INITIAL_STATE_def split: option.splits)

lemma best_when_all_supported: "getBestSupportedMimeType (\<lambda>t. True) = ''audio/webm;codecs=opus''"
  by (simp add: getBestSupportedMimeType_def config_keys_def AUDIO_CONFIGS_def priority_of_def)

lemma best_when_none_supported: "getBestSupportedMimeType (\<lambda>t. False) = ''audio/mp4''"
  by (simp add: getBestSupportedMimeType_def config_keys_def AUDIO_CONFIGS_def priority_of_def)

lemma good_start:
  "started (\<lambda>t. True) (fst (startRecording (\<lambda>t. True) (\<lambda>n. good_env) 0 initial_controller))"
proof -
  have "fst (attempt (\<lambda>t. True) good_env initial_controller) = None"
    by (simp add: attempt_def good_env_def Let_def)
  then obtain c1 where a: "attempt (\<lambda>t. True) good_env initial_controller = (None, c1)"
    by (cases "attempt (\<lambda>t. True) good_env initial_controller") auto
  then have "startRecording (\<lambda>t. True) (\<lambda>n. good_env) 0 initial_controller = (c1, [])"
    by (simp add: startRecording.simps)
  with attempt_success[OF a] show ?thesis by simp
qed

text \<open>
  C6. A call of \<open>startRecording\<close> makes at most two retries, each after a delay of
  1000 ms, and every attempt before the last one failed. If the last attempt succeeds the
  controller is recording and no error is published. If it fails, it is the third attempt
  (two delays were waited), and \<open>_handleError\<close> has reset the controller: the published
  state is the initial one (status \<open>idle\<close>) with the error, and every ref is cleared.
\<close>

theorem startRecording_retry_policy:
  assumes "startRecording supported envs 0 c = (c', delays)"
  shows "length delays \<le> 2 \<and> delays = replicate (length delays) 1000 \<and>
         (\<forall>j<length delays. attempt_throws supported (envs j) \<noteq> None) \<and>
         (case attempt_throws supported (envs (length delays)) of
            None \<Rightarrow> status (state c') = Recording \<and> error (state c') = None
          | Some e \<Rightarrow> length delays = 2 \<and>
              state c' = INITIAL_STATE\<lparr>error := Some (surfaced e)\<rparr> \<and>
              status (state c') = Idle \<and>
              mediaRecorderRef c' = None \<and> mediaStreamRef c' = None \<and> chunksRef c' = [] \<and>
              \<not> timerIntervalRef c' \<and> \<not> cleanupRef c')"
  using startRecording_retries[OF assms]
  by (auto simp: started_def INITIAL_STATE_def split: option.splits)

theorem startRecording_retry_policy_witness:
  "snd (startRecording (\<lambda>t. True) (\<lambda>n. denied_env) 0 initial_controller) = [1000, 1000] \<and>
   state (fst (startRecording (\<lambda>t. True) (\<lambda>n. denied_env) 0 initial_controller))
     = INITIAL_STATE\<lparr>error := Some (Error ''Permission denied'')\<rparr> \<and>
   snd (startRecording (\<lambda>t. True) denied_once 0 initial_controller) = [1000] \<and>
   status (state (fst (startRecording (\<lambda>t. True) denied_once 0 initial_controller))) = Recording"
proof -
  obtain c' delays where
    s: "startRecording (\<lambda>t. True) (\<lambda>n. denied_env) 0 initial_controller = (c', delays)"
    by (cases "startRecording (\<lambda>t. True) (\<lambda>n. denied_env) 0 initial_controller")
  have t: "attempt_throws (\<lambda>t. True) denied_env = Some (Error ''Permission denied'')"
    by (simp add: attempt_throws_def attempt_def denied_env_def Let_def)
  note p = startRecording_retry_policy[OF s]
  from p t have l: "length delays = 2"
    and e: "state c' = INITIAL_STATE\<lparr>error := Some (Error ''Permission denied'')\<rparr>"
    by (simp_all add: surfaced_def)
  from p have "delays = replicate (length delays) 1000" by blast
  then have "delays = replicate 2 1000" unfolding l .
  then have d: "delays = [1000, 1000]" by (simp add: numeral_2_eq_2)
  obtain c2 delays2 where
    s2: "startRecording (\<lambda>t. True) denied_once 0 initial_controller = (c2, delays2)"
    by (cases "startRecording (\<lambda>t. True) denied_once 0 initial_controller")
  have g: "attempt_throws (\<lambda>t. True) good_env = None"
    by (simp add: attempt_throws_def attempt_def good_env_def Let_def)
  note q = startRecording_retry_policy[OF s2]
  have n0: "delays2 \<noteq> []"
  proof
    assume "delays2 = []"
    with q t show False by (simp add: denied_once_def)
  qed
  have n2: "length delays2 < 2"
  proof (rule ccontr)
    assume "\<not> length delays2 < 2"
    with q have "1 < length delays2" and "\<forall>j<length delays2. attempt_throws (\<lambda>t. True) (denied_once j) \<noteq> None"
      by simp_all
    then have "attempt_throws (\<lambda>t. True) (denied_once 1) \<noteq> None" by blast
    with g show False by (simp add: denied_once_def)
  qed
  from n0 n2 have l2: "length delays2 = 1" by (cases delays2) auto
  from q have "delays2 = replicate (length delays2) 1000" by blast
  then have "delays2 = replicate 1 1000" unfolding l2 .
  then have d2: "delays2 = [1000]" by simp
  from q have "case attempt_throws (\<lambda>t. True) (denied_once (length delays2)) of
                 None \<Rightarrow> status (state c2) = Recording
               | Some e \<Rightarrow> length delays2 = 2"
    by (auto split: option.splits)
  from this[unfolded l2] g have r2: "status (state c2) = Recording"
    by (simp add: denied_once_def)
  from s e d s2 d2 r2 show ?thesis by simp
qed

text \<open>
  C9. When some entry of the table is supported, \<open>getBestSupportedMimeType\<close> returns a
  supported entry whose priority number is the lowest among the supported ones, and
  strictly lower than that of any other supported entry. When none is supported it
  returns the default \<open>audio/mp4\<close>; \<open>startRecording\<close> then rejects that type at each
  attempt, and, the stream being acquired at the last attempt, it ends after its two
  retries with the published error \<open>Mime type audio/mp4 is not supported\<close> (the
  unsupported-format error) and status \<open>idle\<close>.
\<close>

theorem format_selection_by_priority:
  "(\<forall>t\<in>set config_keys. supported t \<longrightarrow>
      supported (getBestSupportedMimeType supported) \<and>
      getBestSupportedMimeType supported \<in> set config_keys \<and>
      priority_of (getBestSupportedMimeType supported) \<le> priority_of t \<and>
      (t \<noteq> getBestSupportedMimeType supported \<longrightarrow>
         priority_of (getBestSupportedMimeType supported) < priority_of t)) \<and>
   ((\<forall>t\<in>set config_keys. \<not> supported t) \<longrightarrow>
      getBestSupportedMimeType supported = ''audio/mp4'' \<and>
      (userMedia (envs 2) = Inr st \<and> active st \<longrightarrow>
         snd (startRecording supported envs 0 c) = [1000, 1000] \<and>
         state (fst (startRecording supported envs 0 c)) =
           INITIAL_STATE\<lparr>error := Some (Error ''Mime type audio/mp4 is not supported'')\<rparr> \<and>
         status (state (fst (startRecording supported envs 0 c))) = Idle))"
proof (intro conjI ballI impI)
  fix t assume t: "t \<in> set config_keys" "supported t"
  note b = getBest_some[of t supported, OF t]
  show "supported (getBestSupportedMimeType supported)" using b by simp
  show "getBestSupportedMimeType supported \<in> set config_keys" by (rule getBest_in_keys)
  show le: "priority_of (getBestSupportedMimeType supported) \<le> priority_of t"
    using b by simp
  assume "t \<noteq> getBestSupportedMimeType supported"
  with priority_of_inj[OF t(1) getBest_in_keys, of supported]
  have "priority_of t \<noteq> priority_of (getBestSupportedMimeType supported)" by blast
  with le show "priority_of (getBestSupportedMimeType supported) < priority_of t" by simp
next
  assume n: "\<forall>t\<in>set config_keys. \<not> supported t"
  show m: "getBestSupportedMimeType supported = ''audio/mp4''" by (rule getBest_none[OF n])
  assume "userMedia (envs 2) = Inr st \<and> active st"
  then have u: "userMedia (envs 2) = Inr st" "active st" by simp_all
  have ns: "\<not> supported (getBestSupportedMimeType supported)" by (rule getBest_none[OF n])
  obtain c' delays where s: "startRecording supported envs 0 c = (c', delays)"
    by (cases "startRecording supported envs 0 c")
  note r = startRecording_retries[OF s]
  have "attempt_throws supported (envs (length delays)) \<noteq> None"
    using attempt_unsupported(1)[of supported, OF ns] by simp
  with r have l: "length delays = 2" by (auto split: option.splits)
  with r have d: "delays = [1000, 1000]" by (simp add: numeral_2_eq_2)
  from attempt_unsupported(2)[of supported, OF ns u] m
  have at: "attempt_throws supported (envs 2) = Some (Error ''Mime type audio/mp4 is not supported'')"
    by simp
  from r have "case attempt_throws supported (envs (length delays)) of
                 None \<Rightarrow> started supported c'
               | Some e \<Rightarrow> state c' = INITIAL_STATE\<lparr>error := Some (surfaced e)\<rparr>"
    by (auto split: option.splits)
  from this[unfolded l] at
  have "state c' = INITIAL_STATE\<lparr>error := Some (Error ''Mime type audio/mp4 is not supported'')\<rparr>"
    by (simp add: surfaced_def)
  with s d
  show "snd (startRecording supported envs 0 c) = [1000, 1000]"
    and "state (fst (startRecording supported envs 0 c)) =
           INITIAL_STATE\<lparr>error := Some (Error ''Mime type audio/mp4 is not supported'')\<rparr>"
    and "status (state (fst (startRecording supported envs 0 c))) = Idle"
    by (simp_all add: INITIAL_STATE_def)
qed

theorem format_selection_by_priority_witness:
  "getBestSupportedMimeType (\<lambda>t. t = ''audio/mpeg'' \<or> t = ''audio/webm'') = ''audio/webm'' \<and>
   priority_of ''audio/webm'' < priority_of ''audio/mpeg'' \<and>
   getBestSupportedMimeType (\<lambda>t. False) = ''audio/mp4'' \<and>
   snd (startRecording (\<lambda>t. False) (\<lambda>n. good_env) 0 initial_controller) = [1000, 1000] \<and>
   state (fst (startRecording (\<lambda>t. False) (\<lambda>n. good_env) 0 initial_controller)) =
     INITIAL_STATE\<lparr>error := Some (Error ''Mime type audio/mp4 is not supported'')\<rparr>"
proof -
  let ?two = "\<lambda>t. t = ''audio/mpeg'' \<or> t = ''audio/webm''"
  have b: "getBestSupportedMimeType ?two = ''audio/webm''"
    by (simp add: getBestSupportedMimeType_def config_keys_def AUDIO_CONFIGS_def priority_of_def)
  have k: "''audio/mpeg'' \<in> set config_keys" "?two ''audio/mpeg''"
    by (simp_all add: config_keys_def AUDIO_CONFIGS_def)
  from format_selection_by_priority[of ?two] k b
  have p: "priority_of ''audio/webm'' < priority_of ''audio/mpeg''" by auto
  have g: "userMedia ((\<lambda>n. good_env) 2) = Inr \<lparr>active = True\<rparr> \<and> active \<lparr>active = True\<rparr>"
    by (simp add: good_env_def)
  from conjunct2[OF format_selection_by_priority[where supported = "\<lambda>t. False"
        and envs = "\<lambda>n. good_env" and st = "\<lparr>active = True\<rparr>" and c = initial_controller]] g
  have n: "getBestSupportedMimeType (\<lambda>t. False) = ''audio/mp4''"
    and "snd (startRecording (\<lambda>t. False) (\<lambda>n. good_env) 0 initial_controller) = [1000, 1000]"
    and "state (fst (startRecording (\<lambda>t. False) (\<lambda>n. good_env) 0 initial_controller)) =
           INITIAL_STATE\<lparr>error := Some (Error ''Mime type audio/mp4 is not supported'')\<rparr>"
    by simp_all
  with b p n show ?thesis by simp
qed

subsection \<open>Sessions\<close>

lemma delivered_append: "delivered (xs @ ys) = delivered xs @ delivered ys"
  by (induction xs rule: delivered.induct) auto

lemma delivered_nonempty: "d \<in> set (delivered ops) \<Longrightarrow> 0 < blob_size d"
  by (induction ops rule: delivered.induct) (auto split: if_splits)

lemma started_in_session:
  "started supported c \<Longrightarrow> in_session (getBestSupportedMimeType supported) [] c"
  by (simp add: started_def in_session_def)

lemma in_session_step:
  assumes "in_session m ds c" and "session_op op \<or> op = StopRecording"
  shows "in_session m (ds @ delivered [op]) (apply_op supported op c)"
proof (cases op)
  case (DataAvailable d)
  with assms show ?thesis
    by (cases d)
       (auto simp: in_session_def dispatch_def handleDataAvailable_def Let_def new_Blob_def
          blob_size_def mime_of_def)
next
  case TogglePauseResume
  with assms show ?thesis
    by (auto simp: in_session_def togglePauseResume_def recorder_pause_def recorder_resume_def
          startTimer_eq clearTimer_eq Let_def split: if_splits)
next
  case PauseEvent
  with assms show ?thesis
    by (auto simp: in_session_def dispatch_def handlePause_def createObjectURL_def
          clearTimer_eq Let_def)
next
  case ResumeEvent
  with assms show ?thesis
    by (auto simp: in_session_def dispatch_def handleResume_def startTimer_eq Let_def)
next
  case Tick
  with assms show ?thesis by (auto simp: in_session_def tick_def)
next
  case StopRecording
  with assms show ?thesis
    by (auto simp: in_session_def stopRecording_def clearTimer_eq split: if_splits)
qed (use assms in auto)

lemma in_session_run:
  assumes "in_session m ds c" and "list_all (\<lambda>op. session_op op \<or> op = StopRecording) ops"
  shows "in_session m (ds @ delivered ops) (run_from supported c ops)"
  using assms(2)
proof (induction ops rule: rev_induct)
  case Nil
  with assms(1) show ?case by (simp add: run_from_def)
next
  case (snoc op ops)
  then have "in_session m (ds @ delivered ops) (run_from supported c ops)" by simp
  from in_session_step[OF this, of op supported] snoc.prems
  show ?case by (simp add: run_from_def delivered_append)
qed

lemma session_until_stop_event:
  assumes "started supported c0"
      and "list_all session_op ops1" and "list_all session_op ops2"
  shows "in_session (getBestSupportedMimeType supported) (delivered (ops1 @ ops2))
           (run_from supported c0 (ops1 @ [StopRecording] @ ops2))"
    and "run_from supported c0 (ops1 @ [StopRecording] @ ops2 @ [StopEvent])
           = dispatch handleStop (run_from supported c0 (ops1 @ [StopRecording] @ ops2))"
proof -
  have "list_all (\<lambda>op. session_op op \<or> op = StopRecording) (ops1 @ [StopRecording] @ ops2)"
    using assms(2,3) by (auto simp: list_all_iff)
  from in_session_run[OF started_in_session[OF assms(1)] this, of supported]
  show "in_session (getBestSupportedMimeType supported) (delivered (ops1 @ ops2))
           (run_from supported c0 (ops1 @ [StopRecording] @ ops2))"
    by (simp add: delivered_append)
  show "run_from supported c0 (ops1 @ [StopRecording] @ ops2 @ [StopEvent])
           = dispatch handleStop (run_from supported c0 (ops1 @ [StopRecording] @ ops2))"
    by (simp add: run_from_def)
qed

lemma handleStop_data:
  assumes "in_session m ds c" and "ds \<noteq> []" and "\<forall>d\<in>set ds. 0 < blob_size d"
  shows "status (state (dispatch handleStop c)) = Stopped"
    and "recordingBlob (state (dispatch handleStop c))
           = Some \<lparr>bytes = concat (map bytes ds), btype = m\<rparr>"
    and "mediaRecorderRef (dispatch handleStop c) \<noteq> None"
proof -
  from assms(2) obtain d ds' where ds: "ds = d # ds'" by (cases ds) auto
  with assms(3) have "bytes d \<noteq> []" by (simp add: blob_size_def)
  then have ne: "concat (map bytes ds) \<noteq> []" using ds by simp
  have cm: "concat (map (bytes \<circ> (\<lambda>d. new_Blob [d] m)) ds) = concat (map bytes ds)"
    by (simp add: new_Blob_def comp_def)
  from assms(1,2) ne cm
  show "status (state (dispatch handleStop c)) = Stopped"
    and "recordingBlob (state (dispatch handleStop c))
           = Some \<lparr>bytes = concat (map bytes ds), btype = m\<rparr>"
    and "mediaRecorderRef (dispatch handleStop c) \<noteq> None"
    by (auto simp: in_session_def dispatch_def handleStop_def Let_def new_Blob_def blob_size_def
          mime_of_def createObjectURL_def clearTimer_eq priv_cleanTracks_def)
qed

lemma handleStop_nodata:
  assumes "in_session m [] c"
  shows "dispatch handleStop c
           = priv_handleError (Error ''No audio data was received during recording'') c"
  using assms by (auto simp: in_session_def dispatch_def handleStop_def)

lemma blob_size_concat:
  "blob_size \<lparr>bytes = concat (map bytes ds), btype = m\<rparr> = sum_list (map blob_size ds)"
  by (induction ds) (simp_all add: blob_size_def)

text \<open>
  C1. Take a session that \<open>startRecording\<close> has opened (status \<open>recording\<close>) and in which,
  before and after the call of \<open>stopRecording\<close>, chunks are delivered to the chunk
  handler in any interleaving with pauses, resumes and timer ticks. If at least one
  delivered chunk is non-empty, the \<open>stop\<close> event leaves status \<open>stopped\<close> and an assembled
  object whose bytes are the non-empty chunks, concatenated in delivery order, and whose
  size is the sum of their sizes.
\<close>

theorem stop_assembles_delivered_chunks:
  assumes "startRecording supported envs 0 c = (c0, delays)"
      and "status (state c0) = Recording"
      and "list_all session_op ops1" and "list_all session_op ops2"
      and "delivered (ops1 @ ops2) \<noteq> []"
  shows "let cN = run_from supported c0 (ops1 @ [StopRecording] @ ops2 @ [StopEvent]);
             chunks = delivered (ops1 @ ops2)
         in status (state cN) = Stopped \<and>
            recordingBlob (state cN) =
              Some \<lparr>bytes = concat (map bytes chunks),
                    btype = getBestSupportedMimeType supported\<rparr> \<and>
            map_option blob_size (recordingBlob (state cN))
              = Some (sum_list (map blob_size chunks))"
proof -
  from startRecording_cases[OF assms(1)] assms(2) have st: "started supported c0" by auto
  have ne: "\<forall>d\<in>set (delivered (ops1 @ ops2)). 0 < blob_size d"
    using delivered_nonempty by blast
  from handleStop_data[OF session_until_stop_event(1)[OF st assms(3,4)] assms(5) ne]
    session_until_stop_event(2)[OF st assms(3,4)]
  show ?thesis by (simp add: Let_def blob_size_concat)
qed

theorem stop_assembles_delivered_chunks_witness:
  "status (state (run_from (\<lambda>t. True)
      (fst (startRecording (\<lambda>t. True) (\<lambda>n. good_env) 0 initial_controller))
      (scenario_A @ [StopRecording] @ [] @ [StopEvent]))) = Stopped \<and>
   map_option blob_size (recordingBlob (state (run_from (\<lambda>t. True)
      (fst (startRecording (\<lambda>t. True) (\<lambda>n. good_env) 0 initial_controller))
      (scenario_A @ [StopRecording] @ [] @ [StopEvent])))) = Some 60"
proof -
  obtain c0 delays where
    s: "startRecording (\<lambda>t. True) (\<lambda>n. good_env) 0 initial_controller = (c0, delays)"
    by (cases "startRecording (\<lambda>t. True) (\<lambda>n. good_env) 0 initial_controller")
  have r: "status (state c0) = Recording" using good_start s by (simp add: started_def)
  have o: "list_all session_op scenario_A" "list_all session_op []"
    by (simp_all add: scenario_A_def)
  have d: "delivered (scenario_A @ []) \<noteq> []"
    by (simp add: scenario_A_def chunk_of_size_def blob_size_def)
  have z: "sum_list (map blob_size (delivered (scenario_A @ []))) = 60"
    by (simp add: scenario_A_def chunk_of_size_def blob_size_def)
  from stop_assembles_delivered_chunks[OF s r o d] s z show ?thesis by (auto simp: Let_def)
qed

text \<open>
  C2. In the same sessions, if no non-empty chunk was delivered, the \<open>stop\<close> event throws
  \<open>No audio data was received during recording\<close> (the no-data error) into
  \<open>_handleError\<close>: the controller is reset, the published state is the initial one with
  that error, so the status is \<open>idle\<close>, not \<open>stopped\<close>, and there is no assembled object.
\<close>

theorem stop_without_data_resets_to_idle:
  assumes "startRecording supported envs 0 c = (c0, delays)"
      and "status (state c0) = Recording"
      and "list_all session_op ops1" and "list_all session_op ops2"
      and "delivered (ops1 @ ops2) = []"
  shows "let cN = run_from supported c0 (ops1 @ [StopRecording] @ ops2 @ [StopEvent])
         in state cN = INITIAL_STATE
              \<lparr>error := Some (Error ''No audio data was received during recording'')\<rparr> \<and>
            status (state cN) = Idle \<and> status (state cN) \<noteq> Stopped \<and>
            recordingBlob (state cN) = None \<and>
            mediaRecorderRef cN = None \<and> mediaStreamRef cN = None \<and> chunksRef cN = [] \<and>
            \<not> timerIntervalRef cN \<and> \<not> cleanupRef cN"
proof -
  from startRecording_cases[OF assms(1)] assms(2) have st: "started supported c0" by auto
  from session_until_stop_event(1)[OF st assms(3,4)] assms(5)
  have "in_session (getBestSupportedMimeType supported) []
          (run_from supported c0 (ops1 @ [StopRecording] @ ops2))" by simp
  from handleStop_nodata[OF this] session_until_stop_event(2)[OF st assms(3,4)]
  show ?thesis
    by (simp add: Let_def handleError_fields surfaced_def INITIAL_STATE_def)
qed

theorem stop_without_data_resets_to_idle_witness:
  "state (run_from (\<lambda>t. True)
      (fst (startRecording (\<lambda>t. True) (\<lambda>n. good_env) 0 initial_controller))
      (silent_session @ [StopRecording] @ [DataAvailable (Some (chunk_of_size 0))] @ [StopEvent]))
   = INITIAL_STATE\<lparr>error := Some (Error ''No audio data was received during recording'')\<rparr>"
proof -
  obtain c0 delays where
    s: "startRecording (\<lambda>t. True) (\<lambda>n. good_env) 0 initial_controller = (c0, delays)"
    by (cases "startRecording (\<lambda>t. True) (\<lambda>n. good_env) 0 initial_controller")
  have r: "status (state c0) = Recording" using good_start s by (simp add: started_def)
  have o: "list_all session_op silent_session"
    "list_all session_op [DataAvailable (Some (chunk_of_size 0))]"
    by (simp_all add: silent_session_def)
  have d: "delivered (silent_session @ [DataAvailable (Some (chunk_of_size 0))]) = []"
    by (simp add: silent_session_def chunk_of_size_def blob_size_def)
  from stop_without_data_resets_to_idle[OF s r o d] s show ?thesis by (simp add: Let_def)
qed

subsection \<open>The recorder handle and the status\<close>

lemma handle_step:
  assumes "(mediaRecorderRef c = None) = (status (state c) = Idle)"
  shows "(mediaRecorderRef (apply_op supported op c) = None)
           = (status (state (apply_op supported op c)) = Idle)"
proof (cases op)
  case (StartRecording envs)
  obtain c' delays where s: "startRecording supported envs 0 c = (c', delays)"
    by (cases "startRecording supported envs 0 c")
  from startRecording_cases[OF s] s StartRecording show ?thesis
    by (auto simp: started_def)
next
  case StopRecording
  with assms show ?thesis
    by (auto simp: stopRecording_def clearTimer_eq split: option.splits)
next
  case TogglePauseResume
  with assms show ?thesis
    by (auto simp: togglePauseResume_def recorder_pause_def recorder_resume_def
          startTimer_eq clearTimer_eq Let_def split: option.splits)
next
  case ReleaseResources
  then show ?thesis by (simp add: releaseResources_def reset_fields INITIAL_STATE_def)
next
  case (DataAvailable d)
  with assms show ?thesis
    by (auto simp: dispatch_def handleDataAvailable_def Let_def split: option.splits)
next
  case PauseEvent
  with assms show ?thesis
    by (auto simp: dispatch_def handlePause_def createObjectURL_def clearTimer_eq Let_def
          split: option.splits)
next
  case ResumeEvent
  with assms show ?thesis
    by (auto simp: dispatch_def handleResume_def startTimer_eq Let_def split: option.splits)
next
  case StopEvent
  with assms show ?thesis
    by (auto simp: dispatch_def handleStop_def handleError_fields INITIAL_STATE_def
          createObjectURL_def clearTimer_eq priv_cleanTracks_def Let_def split: option.splits)
next
  case ErrorEvent
  with assms show ?thesis
    by (auto simp: dispatch_def handleError_def handleError_fields INITIAL_STATE_def
          split: option.splits)
next
  case Tick
  with assms show ?thesis by (auto simp: tick_def)
next
  case (DevicesEnumerated ds)
  with assms show ?thesis by simp
qed

lemma run_scenario_A:
  "run (\<lambda>t. True) (StartRecording (\<lambda>n. good_env) # scenario_A @ [StopRecording, StopEvent])
     = run_from (\<lambda>t. True)
         (fst (startRecording (\<lambda>t. True) (\<lambda>n. good_env) 0 initial_controller))
         (scenario_A @ [StopRecording] @ [] @ [StopEvent])"
  by (simp add: run_def run_from_def)

text \<open>
  C3, as stated, fails: after a session that ends with a successful \<open>stop\<close> event the
  status is \<open>stopped\<close> and \<open>mediaRecorderRef\<close> still holds the recorder.
\<close>

theorem handle_kept_when_stopped:
  "status (state (run (\<lambda>t. True)
      (StartRecording (\<lambda>n. good_env) # scenario_A @ [StopRecording, StopEvent]))) = Stopped \<and>
   mediaRecorderRef (run (\<lambda>t. True)
      (StartRecording (\<lambda>n. good_env) # scenario_A @ [StopRecording, StopEvent])) \<noteq> None"
proof -
  have o: "list_all session_op scenario_A" "list_all session_op []"
    by (simp_all add: scenario_A_def)
  have d: "delivered (scenario_A @ []) \<noteq> []"
    by (simp add: scenario_A_def chunk_of_size_def blob_size_def)
  have ne: "\<forall>d\<in>set (delivered (scenario_A @ [])). 0 < blob_size d"
    using delivered_nonempty by blast
  from handleStop_data(1,3)[OF session_until_stop_event(1)[OF good_start o] d ne]
    session_until_stop_event(2)[OF good_start o]
  show ?thesis unfolding run_scenario_A by simp
qed

lemma handle_present_op:
  assumes "mediaRecorderRef c = None \<longrightarrow> status (state c) = Idle"
  shows "mediaRecorderRef (apply_op supported op c) = None
           \<longrightarrow> status (state (apply_op supported op c)) = Idle"
proof (cases op)
  case (StartRecording envs)
  obtain c' delays where s: "startRecording supported envs 0 c = (c', delays)"
    by (cases "startRecording supported envs 0 c")
  from startRecording_cases[OF s] s StartRecording show ?thesis
    by (auto simp: started_def)
next
  case StopRecording
  with assms show ?thesis
    by (auto simp: stopRecording_def clearTimer_eq split: option.splits)
next
  case TogglePauseResume
  with assms show ?thesis
    by (auto simp: togglePauseResume_def recorder_pause_def recorder_resume_def
          startTimer_eq clearTimer_eq Let_def split: option.splits)
next
  case ReleaseResources
  then show ?thesis by (simp add: releaseResources_def reset_fields INITIAL_STATE_def)
next
  case (DataAvailable d)
  with assms show ?thesis
    by (auto simp: dispatch_def handleDataAvailable_def Let_def split: option.splits)
next
  case PauseEvent
  with assms show ?thesis
    by (auto simp: dispatch_def handlePause_def createObjectURL_def clearTimer_eq Let_def
          split: option.splits)
next
  case ResumeEvent
  with assms show ?thesis
    by (auto simp: dispatch_def handleResume_def startTimer_eq Let_def split: option.splits)
next
  case StopEvent
  with assms show ?thesis
    by (auto simp: dispatch_def handleStop_def handleError_fields INITIAL_STATE_def
          createObjectURL_def clearTimer_eq priv_cleanTracks_def Let_def split: option.splits)
next
  case ErrorEvent
  with assms show ?thesis
    by (auto simp: dispatch_def handleError_def handleError_fields INITIAL_STATE_def
          split: option.splits)
next
  case Tick
  with assms show ?thesis by (auto simp: tick_def)
next
  case (DevicesEnumerated ds)
  with assms show ?thesis by simp
qed

lemma attempt_leaves:
  "status (state (snd (attempt supported env c))) = Idle \<or>
   started supported (snd (attempt supported env c))"
  by (auto simp: attempt_def Let_def started_def setupRecorder_def cleanup_def startTimer_eq
        reset_fields INITIAL_STATE_def split: sum.splits option.splits)

lemma handle_present_step:
  assumes "mediaRecorderRef c = None \<longrightarrow> status (state c) = Idle"
  shows "mediaRecorderRef (apply_step supported s c) = None
           \<longrightarrow> status (state (apply_step supported s c)) = Idle"
proof (cases s)
  case (Whole op)
  with handle_present_op[OF assms, of supported op] show ?thesis by simp
next
  case (AttemptStep env)
  with attempt_leaves[of supported env c] show ?thesis by (auto simp: started_def)
next
  case (SurfaceStep e)
  then show ?thesis by (simp add: handleError_fields INITIAL_STATE_def)
qed

text \<open>
  The steps cover the operations, and a call of \<open>startRecording\<close> is the sequence of
  its steps: every state the call passes through between its attempts is the state after
  a prefix of them.
\<close>

lemma run_as_steps: "run supported ops = run_steps supported (map Whole ops)"
  by (simp add: run_def run_from_def run_steps_def steps_from_def foldl_map)

lemma startRecording_is_its_steps:
  "fst (startRecording supported envs k c) = steps_from supported c (start_steps supported envs k)"
proof (induction supported envs k c rule: startRecording.induct)
  case (1 supported envs k c)
  obtain r c1 where a: "attempt supported (envs k) c = (r, c1)"
    by (cases "attempt supported (envs k) c")
  then have t: "attempt_throws supported (envs k) = r"
    using attempt_fst[of supported "envs k" c] by simp
  show ?case
  proof (cases r)
    case None
    with a t show ?thesis
      by (simp add: startRecording.simps[of supported envs k c]
          start_steps.simps[of supported envs k] steps_from_def)
  next
    case (Some e)
    show ?thesis
    proof (cases "k < 2")
      case True
      from "1.IH"[OF a[symmetric] Some True]
      have "fst (startRecording supported envs (k + 1) c1)
              = steps_from supported c1 (start_steps supported envs (k + 1))" .
      with a t Some True show ?thesis
        by (auto simp: startRecording.simps[of supported envs k c]
            start_steps.simps[of supported envs k] steps_from_def split: prod.splits)
    next
      case False
      with a t Some show ?thesis
        by (simp add: startRecording.simps[of supported envs k c]
            start_steps.simps[of supported envs k] steps_from_def)
    qed
  qed
qed

text \<open>
  Between two attempts, when \<open>recorder.start\<close> has thrown (lines 369-373), the hook waits
  with status \<open>idle\<close> while \<open>mediaRecorderRef\<close> holds the recorder of the failed attempt and
  the stream is still active; the listeners have been removed.
\<close>

lemma handle_kept_between_attempts:
  "status (state (run_steps (\<lambda>t. True) [AttemptStep start_throws_env])) = Idle \<and>
   mediaRecorderRef (run_steps (\<lambda>t. True) [AttemptStep start_throws_env])
     = Some \<lparr>mr_state = Rec_inactive, listening = False\<rparr> \<and>
   mediaStreamRef (run_steps (\<lambda>t. True) [AttemptStep start_throws_env])
     = Some \<lparr>active = True\<rparr> \<and>
   take 1 (start_steps (\<lambda>t. True) (\<lambda>n. start_throws_env) 0) = [AttemptStep start_throws_env]"
proof -
  have "attempt_throws (\<lambda>t. True) start_throws_env = Some (Error ''NotSupportedError'')"
    by (simp add: attempt_throws_def attempt_def start_throws_env_def Let_def)
  then have "take 1 (start_steps (\<lambda>t. True) (\<lambda>n. start_throws_env) 0)
               = [AttemptStep start_throws_env]"
    by (simp add: start_steps.simps[of _ _ 0])
  then show ?thesis
    by (simp add: run_steps_def steps_from_def attempt_def start_throws_env_def Let_def
        setupRecorder_def cleanup_def reset_fields INITIAL_STATE_def initial_controller_def)
qed

lemma good_attempt: "started (\<lambda>t. True) (snd (attempt (\<lambda>t. True) good_env c))"
proof -
  have "attempt_throws (\<lambda>t. True) good_env = None"
    by (simp add: attempt_throws_def attempt_def good_env_def Let_def)
  with attempt_fst[of "\<lambda>t. True" good_env c]
  have "attempt (\<lambda>t. True) good_env c = (None, snd (attempt (\<lambda>t. True) good_env c))"
    by (cases "attempt (\<lambda>t. True) good_env c") simp
  then show ?thesis by (rule attempt_success)
qed

text \<open>
  C3, amended. Calls of \<open>startRecording\<close> not overlapping: in every state that a sequence
  of steps reaches from the initial controller, the states a call of \<open>startRecording\<close>
  passes through between its attempts included, \<open>mediaRecorderRef\<close> holds the recorder
  whenever the status is not \<open>idle\<close>, that is in the statuses \<open>recording\<close>, \<open>paused\<close> and
  \<open>stopped\<close>. In the states between operations, each call of \<open>startRecording\<close> having run
  to completion with its retries, \<open>mediaRecorderRef\<close> is null exactly when the status is
  \<open>idle\<close>.
\<close>

theorem handle_present_unless_idle:
  "(status (state (run_steps supported steps)) \<noteq> Idle
      \<longrightarrow> mediaRecorderRef (run_steps supported steps) \<noteq> None) \<and>
   ((mediaRecorderRef (run supported ops) = None) = (status (state (run supported ops)) = Idle))"
proof
  have "mediaRecorderRef (run_steps supported steps) = None
          \<longrightarrow> status (state (run_steps supported steps)) = Idle"
  proof (induction steps rule: rev_induct)
    case Nil
    show ?case
      by (simp add: run_steps_def steps_from_def initial_controller_def INITIAL_STATE_def)
  next
    case (snoc s steps)
    from handle_present_step[OF snoc.IH, of supported s]
    show ?case by (simp add: run_steps_def steps_from_def)
  qed
  then show "status (state (run_steps supported steps)) \<noteq> Idle
               \<longrightarrow> mediaRecorderRef (run_steps supported steps) \<noteq> None" by blast
next
  show "(mediaRecorderRef (run supported ops) = None) = (status (state (run supported ops)) = Idle)"
  proof (induction ops rule: rev_induct)
    case Nil
    show ?case by (simp add: run_def run_from_def initial_controller_def INITIAL_STATE_def)
  next
    case (snoc op ops)
    from handle_step[OF snoc.IH, of supported op]
    show ?case by (simp add: run_def run_from_def)
  qed
qed

theorem handle_present_unless_idle_witness:
  "status (state (run_steps (\<lambda>t. True)
      [AttemptStep start_throws_env, AttemptStep good_env, Whole TogglePauseResume])) = Paused \<and>
   mediaRecorderRef (run_steps (\<lambda>t. True)
      [AttemptStep start_throws_env, AttemptStep good_env, Whole TogglePauseResume]) \<noteq> None \<and>
   status (state (run (\<lambda>t. True) [StartRecording (\<lambda>n. good_env), ReleaseResources])) = Idle \<and>
   mediaRecorderRef (run (\<lambda>t. True) [StartRecording (\<lambda>n. good_env), ReleaseResources]) = None"
proof -
  let ?steps = "[AttemptStep start_throws_env, AttemptStep good_env, Whole TogglePauseResume]"
  let ?ops = "[StartRecording (\<lambda>n. good_env), ReleaseResources]"
  have "status (state (run_steps (\<lambda>t. True) ?steps)) = Paused"
    using good_attempt[of "snd (attempt (\<lambda>t. True) start_throws_env initial_controller)"]
    by (simp add: run_steps_def steps_from_def started_def togglePauseResume_def
        recorder_pause_def clearTimer_eq)
  moreover have "status (state (run (\<lambda>t. True) ?ops)) = Idle"
    by (simp add: run_def run_from_def releaseResources_def reset_fields INITIAL_STATE_def)
  ultimately show ?thesis
    using handle_present_unless_idle[of "\<lambda>t. True" ?steps ?ops] by simp
qed

section \<open>Properties of the playback engine\<close>

lemma stopTimeUpdates_eq: "stopTimeUpdates p = p\<lparr>timeUpdateId := None\<rparr>"
  by (cases p) (simp add: stopTimeUpdates_def)

lemma transition_fields:
  "pstate (transition u p) = u (pstate p)"
  "audio_context (transition u p) = audio_context p"
  "audio_source (transition u p) = audio_source p"
  "audio_buffer (transition u p) = audio_buffer p"
  "stableSnapshot (transition u p) = stableSnapshot p"
  "lastSnapshot (transition u p) = lastSnapshot p"
  "timeUpdateId (transition u p) = timeUpdateId p"
  "closedContexts (transition u p) = closedContexts p"
  "liveNodes (transition u p) = liveNodes p"
  "pendingPause (transition u p) = pendingPause p"
  "frameCounter (transition u p) = frameCounter p"
  by (simp_all add: transition_def notify_def Let_def)

lemma transition_same: "u (pstate p) = pstate p \<Longrightarrow> transition u p = p"
  by (simp add: transition_def Let_def)

lemma snapshot_value:
  "fst (getSnapshot now p) =
     \<lparr>snap_isPlaying = isPlaying (pstate p), snap_isReady = isReady (pstate p),
      snap_currentTime = getCurrentTime now p,
      snap_duration = (case audio_buffer p of Some d \<Rightarrow> d | None \<Rightarrow> 0)\<rparr>"
  by (simp add: getSnapshot_def Let_def)

subsection \<open>Every reachable engine keeps the context of a loaded buffer\<close>

lemma buffer_has_context_step:
  assumes "buffer_has_context p"
  shows "buffer_has_context (apply_player_op op p)"
proof (cases op)
  case (LoadAudio env)
  with assms show ?thesis
    by (auto simp: buffer_has_context_def loadAudio_def loadAudio_catch_def acquire_context_def
          transition_fields Let_def split: load_outcome.splits option.splits)
next
  case (Play r now)
  with assms show ?thesis
    by (auto simp: buffer_has_context_def play_def player_handleError_def setupSource_def
          setupTimeUpdates_def requestAnimationFrame_def stopTimeUpdates_eq transition_fields
          Let_def split: option.splits)
next
  case (Pause now)
  with assms show ?thesis
    by (auto simp: buffer_has_context_def pause_def pause_begin_def pause_finish_def
          stopTimeUpdates_eq transition_fields Let_def)
next
  case (Seek time now)
  with assms show ?thesis
    by (auto simp: buffer_has_context_def seek_def startPlayback_def setupSource_def notify_def
          transition_fields Let_def split: option.splits)
next
  case (Toggle r now)
  with assms show ?thesis
    by (auto simp: buffer_has_context_def toggle_def play_def player_handleError_def
          setupSource_def setupTimeUpdates_def requestAnimationFrame_def pause_def
          pause_begin_def pause_finish_def stopTimeUpdates_eq transition_fields Let_def
          split: option.splits)
next
  case Dispose
  then show ?thesis
    by (auto simp: buffer_has_context_def dispose_def pause_begin_def stopTimeUpdates_eq Let_def)
next
  case (GetSnapshot now)
  with assms show ?thesis by (auto simp: buffer_has_context_def getSnapshot_def Let_def)
next
  case (EndedEvent dsub now)
  with assms show ?thesis
    by (auto simp: buffer_has_context_def ended_event_def onended_def notify_def
          stopTimeUpdates_eq Let_def split: option.splits)
next
  case (AnimationFrame now)
  with assms show ?thesis
    by (auto simp: buffer_has_context_def animation_frame_def updateTime_def
          updateCurrentTime_def requestAnimationFrame_def transition_fields Let_def)
next
  case (PauseContinues now)
  with assms show ?thesis
    by (auto simp: buffer_has_context_def pause_continues_def pause_finish_def
          stopTimeUpdates_eq transition_fields Let_def)
qed

lemma buffer_has_context_run: "buffer_has_context (player_run ops)"
proof (induction ops rule: rev_induct)
  case Nil
  show ?case by (simp add: player_run_def buffer_has_context_def initial_player_def)
next
  case (snoc op ops)
  from buffer_has_context_step[OF snoc.IH, of op]
  show ?case by (simp add: player_run_def)
qed

subsection \<open>Loading\<close>

lemma loadAudio_failure:
  assumes "outcome env = Fetch_fails e \<or> outcome env = Decode_fails e"
      and "closeRejects env = None"
  shows "fst (loadAudio env p) = None"
    and "audio_context (snd (loadAudio env p)) = None"
    and "closedContexts (snd (loadAudio env p)) = closedContexts p + 1"
    and "audio_buffer (snd (loadAudio env p)) = None"
    and "pstate (snd (loadAudio env p)) =
           (pstate p)\<lparr>isReady := False, player_error := Some e, isPlaying := False,
                      offset := 0, currentTime := 0, duration := 0\<rparr>"
  using assms
  by (auto simp: loadAudio_def loadAudio_catch_def acquire_context_def transition_fields Let_def
        split: option.splits)

text \<open>
  C4, as stated, fails: when the fetch fails, the promise returned by \<open>loadAudio\<close> does not
  reject (there is no \<open>LOAD_ERROR\<close>); the error that was caught is kept in the internal
  state.
\<close>

theorem load_failure_is_not_thrown:
  "fst (loadAudio fetch_failure initial_player) = None \<and>
   player_error (pstate (snd (loadAudio fetch_failure initial_player)))
     = Some (Error ''Failed to fetch'')"
  by (simp add: loadAudio_def loadAudio_catch_def acquire_context_def transition_fields Let_def
      fetch_failure_def initial_player_def)

text \<open>
  C4, amended. When the fetch or the decoding of \<open>loadAudio\<close> fails (and \<open>close\<close> does not
  reject), the call completes without throwing and records the caught error in the
  internal state; the context is closed and set to null, the buffer is null, and the
  snapshot is not playing, not ready, at time 0 and of duration 0. A following \<open>play\<close>
  returns without throwing and leaves the engine as it is.
\<close>

theorem load_failure_tears_down:
  assumes "outcome env = Fetch_fails e \<or> outcome env = Decode_fails e"
      and "closeRejects env = None"
  shows "fst (loadAudio env p) = None \<and>
         player_error (pstate (snd (loadAudio env p))) = Some e \<and>
         audio_context (snd (loadAudio env p)) = None \<and>
         closedContexts (snd (loadAudio env p)) = closedContexts p + 1 \<and>
         audio_buffer (snd (loadAudio env p)) = None \<and>
         fst (getSnapshot now (snd (loadAudio env p))) = default_snapshot \<and>
         play resumeRejects now' (snd (loadAudio env p)) = (None, snd (loadAudio env p))"
proof -
  note f = loadAudio_failure[OF assms, of p]
  have "fst (getSnapshot now (snd (loadAudio env p))) = default_snapshot"
    unfolding snapshot_value by (simp add: f getCurrentTime_def default_snapshot_def)
  moreover have "play resumeRejects now' (snd (loadAudio env p)) = (None, snd (loadAudio env p))"
    by (simp add: play_def f)
  ultimately show ?thesis using f by simp
qed

theorem load_failure_tears_down_witness:
  "fst (getSnapshot 7 (snd (loadAudio fetch_failure (player_run [LoadAudio ten_seconds, Play None 0]))))
     = default_snapshot \<and>
   audio_context (snd (loadAudio fetch_failure (player_run [LoadAudio ten_seconds, Play None 0]))) = None \<and>
   closedContexts (snd (loadAudio fetch_failure (player_run [LoadAudio ten_seconds, Play None 0]))) = 1 \<and>
   play None 8 (snd (loadAudio fetch_failure (player_run [LoadAudio ten_seconds, Play None 0])))
     = (None, snd (loadAudio fetch_failure (player_run [LoadAudio ten_seconds, Play None 0])))"
proof -
  have o: "outcome fetch_failure = Fetch_fails (Error ''Failed to fetch'') \<or>
           outcome fetch_failure = Decode_fails (Error ''Failed to fetch'')"
    and c: "closeRejects fetch_failure = None"
    by (simp_all add: fetch_failure_def)
  have z: "closedContexts (player_run [LoadAudio ten_seconds, Play None 0]) = 0"
    by (simp add: player_run_def loadAudio_def acquire_context_def play_def setupSource_def
        setupTimeUpdates_def requestAnimationFrame_def stopTimeUpdates_eq transition_fields
        ten_seconds_def initial_player_def Let_def)
  from load_failure_tears_down[OF o c, of "player_run [LoadAudio ten_seconds, Play None 0]" 7 None 8] z
  show ?thesis by simp
qed

subsection \<open>Seeking\<close>

text \<open>
  C5. In every state the engine reaches, with a buffer of duration \<open>d\<close> loaded, \<open>seek\<close>
  sets the offset to the time clamped to \<open>[0, d]\<close>, that is \<open>max 0 (min time d)\<close>, and a
  snapshot read at the same clock reading has this value as its current time; \<open>isPlaying\<close>
  is unchanged, and if it was true a new node has been started at the new offset, at the
  current clock reading. With no buffer loaded, \<open>seek\<close> changes nothing.
\<close>

theorem seek_clamps_offset:
  "(audio_buffer (player_run ops) = Some d \<longrightarrow>
      offset (pstate (seek time now (player_run ops))) = max 0 (min time d) \<and>
      snap_currentTime (fst (getSnapshot now (seek time now (player_run ops))))
        = max 0 (min time d) \<and>
      isPlaying (pstate (seek time now (player_run ops))) = isPlaying (pstate (player_run ops)) \<and>
      (isPlaying (pstate (player_run ops)) \<longrightarrow>
         audio_source (seek time now (player_run ops)) = Some BufferSource \<and>
         startTime (pstate (seek time now (player_run ops))) = now \<and>
         liveNodes (seek time now (player_run ops)) = liveNodes (player_run ops) + 1)) \<and>
   (audio_buffer (player_run ops) = None \<longrightarrow>
      seek time now (player_run ops) = player_run ops)"
proof -
  let ?p = "player_run ops"
  have c: "audio_buffer ?p = Some d \<Longrightarrow> audio_context ?p \<noteq> None"
    using buffer_has_context_run[of ops] by (simp add: buffer_has_context_def)
  show ?thesis
  proof (intro conjI impI)
    assume "audio_buffer ?p = None"
    then show "seek time now ?p = ?p" by (simp add: seek_def)
  next
    assume b: "audio_buffer ?p = Some d"
    from c[OF b] obtain cs where cx: "audio_context ?p = Some cs" by auto
    show "offset (pstate (seek time now ?p)) = max 0 (min time d)"
      using b cx
      by (simp add: seek_def startPlayback_def setupSource_def notify_def transition_fields Let_def)
    show "snap_currentTime (fst (getSnapshot now (seek time now ?p))) = max 0 (min time d)"
      unfolding snapshot_value using b cx
      by (simp add: seek_def startPlayback_def setupSource_def notify_def transition_fields
          getCurrentTime_def Let_def)
    show "isPlaying (pstate (seek time now ?p)) = isPlaying (pstate ?p)"
      using b cx
      by (simp add: seek_def startPlayback_def setupSource_def notify_def transition_fields Let_def)
    assume pl: "isPlaying (pstate ?p)"
    show "audio_source (seek time now ?p) = Some BufferSource"
      using b cx pl
      by (simp add: seek_def startPlayback_def setupSource_def transition_fields Let_def)
    show "startTime (pstate (seek time now ?p)) = now"
      using b cx pl
      by (simp add: seek_def startPlayback_def setupSource_def transition_fields Let_def)
    show "liveNodes (seek time now ?p) = liveNodes ?p + 1"
      using b cx pl
      by (simp add: seek_def startPlayback_def setupSource_def transition_fields Let_def)
  qed
qed

lemma playing_ten_seconds:
  "audio_buffer (player_run [LoadAudio ten_seconds, Play None 0]) = Some 10"
  "isPlaying (pstate (player_run [LoadAudio ten_seconds, Play None 0]))"
  "audio_context (player_run [LoadAudio ten_seconds, Play None 0]) \<noteq> None"
  "offset (pstate (player_run [LoadAudio ten_seconds, Play None 0])) = 0"
  "startTime (pstate (player_run [LoadAudio ten_seconds, Play None 0])) = 0"
  "liveNodes (player_run [LoadAudio ten_seconds, Play None 0]) = 1"
  by (simp_all add: player_run_def loadAudio_def acquire_context_def play_def setupSource_def
      setupTimeUpdates_def requestAnimationFrame_def stopTimeUpdates_eq transition_fields
      ten_seconds_def initial_player_def default_state_def Let_def)

theorem seek_clamps_offset_witness:
  "offset (pstate (seek 15 3 (player_run [LoadAudio ten_seconds, Play None 0]))) = 10 \<and>
   snap_currentTime (fst (getSnapshot 3 (seek 15 3 (player_run [LoadAudio ten_seconds, Play None 0]))))
     = 10 \<and>
   isPlaying (pstate (seek 15 3 (player_run [LoadAudio ten_seconds, Play None 0]))) \<and>
   seek 15 3 (player_run []) = player_run []"
proof -
  have n: "audio_buffer (player_run []) = None"
    by (simp add: player_run_def initial_player_def)
  from seek_clamps_offset[of "[LoadAudio ten_seconds, Play None 0]" 10 15 3]
    seek_clamps_offset[of "[]" 10 15 3] playing_ten_seconds(1,2) n
  show ?thesis by simp
qed

subsection \<open>The end of playback\<close>










subsection \<open>Releasing twice\<close>

lemma dispose_fields:
  "pstate (dispose p) = default_state (player_id (pstate p))"
  "audio_context (dispose p) = None" "audio_buffer (dispose p) = None"
  "timeUpdateId (dispose p) = None" "stableSnapshot (dispose p) = default_snapshot"
  "lastSnapshot (dispose p) = None"
  by (simp_all add: dispose_def pause_begin_def stopTimeUpdates_eq Let_def split: prod.splits)

lemma dispose_idem: "dispose (dispose p) = dispose p"
  by (simp add: dispose_def pause_begin_def stopTimeUpdates_eq default_state_def Let_def
      split: prod.splits)

text \<open>
  Releasing the controller twice, in every state: the second \<open>releaseResources\<close> returns
  the controller the first one returned, which is the initial published state, with no
  error, and the recorder, stream, chunks and timer cleared. The value that \<open>dispose\<close>
  returns is likewise the same after a second call.
\<close>

lemma release_twice:
  "releaseResources (releaseResources c) = releaseResources c \<and>
   state (releaseResources c) = INITIAL_STATE \<and>
   mediaRecorderRef (releaseResources c) = None \<and>
   mediaStreamRef (releaseResources c) = None \<and>
   chunksRef (releaseResources c) = [] \<and>
   \<not> timerIntervalRef (releaseResources c) \<and>
   dispose (dispose p) = dispose p"
  by (simp add: releaseResources_def reset_idem reset_fields dispose_idem)

lemma playing_ten_seconds_pending:
  "pendingPause (player_run [LoadAudio ten_seconds, Play None 0]) = 0"
  by (simp add: player_run_def loadAudio_def acquire_context_def play_def setupSource_def
      setupTimeUpdates_def requestAnimationFrame_def stopTimeUpdates_eq transition_fields
      ten_seconds_def initial_player_def Let_def)

lemma dispose_playing_ten_seconds:
  "pendingPause (dispose (player_run [LoadAudio ten_seconds, Play None 0])) = 1"
proof -
  let ?p = "player_run [LoadAudio ten_seconds, Play None 0]"
  from playing_ten_seconds(3) obtain cs where cs: "audio_context ?p = Some cs" by auto
  with playing_ten_seconds(2) playing_ten_seconds_pending show ?thesis
    by (simp add: dispose_def pause_begin_def stopTimeUpdates_eq Let_def)
qed

text \<open>
  C8. The half about \<open>releaseResources\<close> holds (\<open>release_twice\<close>). The half about
  \<open>dispose\<close> does not hold of the code: \<open>dispose\<close> sets the published fields to the
  not-ready defaults, but it has called \<open>pause\<close> without awaiting it, and on a playing
  engine the rest of \<open>pause\<close> runs afterwards and publishes \<open>isReady = true\<close>, with neither
  context nor buffer. On a clip of ten seconds being played: after \<open>dispose\<close> and the rest
  of \<open>pause\<close> the engine is ready and its snapshot is not the default one; a second
  \<open>dispose\<close> then makes it not ready, so the two calls do not leave the same state; and
  after two calls in a row the rest of \<open>pause\<close> makes the engine ready again.
\<close>

theorem dispose_of_playing_engine_ends_ready:
  "pendingPause (player_run [LoadAudio ten_seconds, Play None 0, Dispose]) = 1 \<and>
   isReady (pstate (player_run [LoadAudio ten_seconds, Play None 0, Dispose, PauseContinues 3])) \<and>
   audio_context (player_run [LoadAudio ten_seconds, Play None 0, Dispose, PauseContinues 3])
     = None \<and>
   audio_buffer (player_run [LoadAudio ten_seconds, Play None 0, Dispose, PauseContinues 3])
     = None \<and>
   fst (getSnapshot 3
         (player_run [LoadAudio ten_seconds, Play None 0, Dispose, PauseContinues 3]))
     \<noteq> default_snapshot \<and>
   \<not> isReady (pstate
         (player_run [LoadAudio ten_seconds, Play None 0, Dispose, PauseContinues 3, Dispose])) \<and>
   isReady (pstate
         (player_run [LoadAudio ten_seconds, Play None 0, Dispose, Dispose, PauseContinues 3]))"
proof -
  let ?p = "player_run [LoadAudio ten_seconds, Play None 0]"
  have r: "player_run [LoadAudio ten_seconds, Play None 0, Dispose] = dispose ?p"
    "player_run [LoadAudio ten_seconds, Play None 0, Dispose, PauseContinues 3]
       = pause_continues 3 (dispose ?p)"
    "player_run [LoadAudio ten_seconds, Play None 0, Dispose, PauseContinues 3, Dispose]
       = dispose (pause_continues 3 (dispose ?p))"
    "player_run [LoadAudio ten_seconds, Play None 0, Dispose, Dispose, PauseContinues 3]
       = pause_continues 3 (dispose ?p)"
    by (simp_all add: player_run_def dispose_idem)
  note d = dispose_playing_ten_seconds
  have c: "isReady (pstate (pause_continues 3 (dispose ?p)))"
    "audio_context (pause_continues 3 (dispose ?p)) = None"
    "audio_buffer (pause_continues 3 (dispose ?p)) = None"
    using d
    by (simp_all add: pause_continues_def pause_finish_def stopTimeUpdates_eq transition_fields
        dispose_fields Let_def)
  have "snap_isReady (fst (getSnapshot 3 (pause_continues 3 (dispose ?p))))"
    unfolding snapshot_value using c(1) by simp
  then have s: "fst (getSnapshot 3 (pause_continues 3 (dispose ?p))) \<noteq> default_snapshot"
    by (auto simp: default_snapshot_def)
  have n: "\<not> isReady (pstate (dispose (pause_continues 3 (dispose ?p))))"
    by (simp add: dispose_fields default_state_def)
  from d c s n show ?thesis unfolding r by simp
qed

end
